theory Spec2Isabelle
  imports Main "HOL-Library.Word" "HOL-Library.Sublist"
begin

section \<open>Strings of the C++ standard library\<close>

text \<open>
  A \<^verbatim>\<open>std::string\<close> is a \<^typ>\<open>string\<close> (a list of bytes), a
  \<^verbatim>\<open>std::vector<std::string>\<close> is a \<^typ>\<open>string list\<close>.
  The two characters the program treats specially are named once.
\<close>

definition space :: char where
  "space = CHR '' ''"

definition dquote :: char where
  "dquote = CHR 0x22"

text \<open>\<^verbatim>\<open>std::to_string(int)\<close>: decimal digits, a leading minus sign for negatives.\<close>

fun to_string_nat :: "nat \<Rightarrow> string" where
  "to_string_nat n =
     (if n < 10 then [''0123456789'' ! n]
      else to_string_nat (n div 10) @ [''0123456789'' ! (n mod 10)])"

declare to_string_nat.simps [simp del]

definition to_string :: "int \<Rightarrow> string" where
  "to_string i = (if i < 0 then CHR ''-'' # to_string_nat (nat (- i)) else to_string_nat (nat i))"

text \<open>
  \<^verbatim>\<open>s.find(pat)\<close>: the first position at which \<open>pat\<close> occurs in \<open>s\<close>;
  \<^verbatim>\<open>std::string::npos\<close> is \<open>None\<close>.
\<close>

fun find_from :: "string \<Rightarrow> string \<Rightarrow> nat \<Rightarrow> nat option" where
  "find_from [] pat pos = (if pat = [] then Some pos else None)"
| "find_from (c # cs) pat pos =
     (if prefix pat (c # cs) then Some pos else find_from cs pat (Suc pos))"

definition find_str :: "string \<Rightarrow> string \<Rightarrow> nat option" where
  "find_str s pat = find_from s pat 0"

text \<open>
  \<^verbatim>\<open>s.rfind(pat, 0)\<close>: the last occurrence that starts at or before position 0, so
  position 0 when \<open>s\<close> starts with \<open>pat\<close> and \<^verbatim>\<open>npos\<close> otherwise.
\<close>

definition rfind0 :: "string \<Rightarrow> string \<Rightarrow> nat option" where
  "rfind0 s pat = (if prefix pat s then Some 0 else None)"

text \<open>
  \<^verbatim>\<open>std::getline(stream, token, delimiter)\<close> on what is left of the stream: it fails
  (\<open>None\<close>) when nothing is left, and otherwise returns the characters before the
  first delimiter and leaves what follows that delimiter.
\<close>

fun getline :: "string \<Rightarrow> char \<Rightarrow> (string \<times> string) option" where
  "getline [] delimiter = None"
| "getline (c # cs) delimiter =
     Some (takeWhile (\<lambda>x. x \<noteq> delimiter) (c # cs),
           drop 1 (dropWhile (\<lambda>x. x \<noteq> delimiter) (c # cs)))"

text \<open>The \<^verbatim>\<open>while (std::getline(...))\<close> loop of \<^verbatim>\<open>split_string\<close>.\<close>

function split_loop :: "string \<Rightarrow> char \<Rightarrow> string list \<Rightarrow> string list" where
  "split_loop stream delimiter tokens =
     (case getline stream delimiter of
        None \<Rightarrow> tokens
      | Some (token, rest) \<Rightarrow>
          split_loop rest delimiter (if token \<noteq> [] then tokens @ [token] else tokens))"
  by pat_completeness auto
termination
proof (relation "measure (\<lambda>(stream, delimiter, tokens). length stream)")
  show "wf (measure (\<lambda>(stream, delimiter, tokens). length stream))"
    by simp
next
  fix stream :: string and delimiter :: char and tokens :: "string list"
    and x2 :: "string \<times> string" and token rest :: string
  assume g: "getline stream delimiter = Some x2" and x: "(token, rest) = x2"
  from g x obtain c cs where s: "stream = c # cs"
    and r: "rest = drop 1 (dropWhile (\<lambda>x. x \<noteq> delimiter) (c # cs))"
    by (cases stream) auto
  have "length (dropWhile (\<lambda>x. x \<noteq> delimiter) (c # cs)) \<le> length (c # cs)"
    by (rule length_dropWhile_le)
  then have "length rest < length stream"
    using s r by (simp del: dropWhile.simps)
  then show "((rest, delimiter, if token \<noteq> [] then tokens @ [token] else tokens),
              (stream, delimiter, tokens))
             \<in> measure (\<lambda>(stream, delimiter, tokens). length stream)"
    by simp
qed

declare split_loop.simps [simp del]

definition split_string :: "string \<Rightarrow> char \<Rightarrow> string list" where
  "split_string s delimiter = split_loop s delimiter []"

text \<open>
  \<^verbatim>\<open>join_string\<close>: the delimiter follows every element but the last.
\<close>

fun join_string :: "string list \<Rightarrow> string \<Rightarrow> string" where
  "join_string [] delimiter = []"
| "join_string [x] delimiter = x"
| "join_string (x # y # ys) delimiter = x @ delimiter @ join_string (y # ys) delimiter"

definition escape_string :: "string \<Rightarrow> string" where
  "escape_string s = (if space \<in> set s then [dquote] @ s @ [dquote] else s)"

section \<open>The two records of the program\<close>

text \<open>
  \<^verbatim>\<open>struct Settings\<close> and \<^verbatim>\<open>struct FFmpegParams\<close>, field by field. Both have a
  field \<open>preset_name\<close>; the first is written \<open>Settings.preset_name\<close>.
\<close>

record Settings =
  preset_name :: string
  video_encoder :: string
  video_bitrate :: string
  video_preset :: string
  video_profile :: string
  video_framerate :: string
  video_quality :: string
  video_quality_type :: string
  video_multipass :: bool
  picture_width :: string
  picture_height :: string
  audio_encoder :: string
  audio_bitrate :: string
  audio_mixdown :: string
  container :: string

record FFmpegParams =
  vcodec :: string
  acodec :: string
  audio_channels :: string
  quality :: string
  format :: string
  preset :: string
  profile :: string
  framerate :: string
  resolution :: string
  multipass :: bool
  preset_name :: string

section \<open>The preset document and its accessors\<close>

text \<open>
  A finite \<^verbatim>\<open>double\<close>: sign, mantissa and binary exponent, standing for
  \<open>\<plusminus> mantissa * 2 ^ exponent\<close>. A parsed JSON document holds no infinity and no NaN.
\<close>

datatype dbl = Dbl (dbl_negative: bool) (dbl_mantissa: nat) (dbl_exponent: int)

text \<open>
  A parsed document, as the JSON library holds it: null, boolean, integer (signed or
  unsigned 64-bit), floating-point number, string, array, or object. An object is a list of
  key-value pairs with distinct keys, looked up by key.
\<close>

datatype json =
    JNull
  | JBool bool
  | JInt int
  | JFloat dbl
  | JString string
  | JArray "json list"
  | JObject "(string \<times> json) list"

text \<open>
  What the program can throw, and the one operation whose result C++ leaves undefined:
  the library's \<^verbatim>\<open>type_error\<close> with its number (302: the value has the wrong type
  for \<^verbatim>\<open>get\<close>; 305: \<^verbatim>\<open>operator[]\<close> on a value that is no array; 306:
  \<^verbatim>\<open>value()\<close> on a value that is no object), a \<^verbatim>\<open>filesystem_error\<close> with its
  message, and the conversion of a \<^verbatim>\<open>double\<close> beyond the range of \<^verbatim>\<open>int\<close>.
\<close>

datatype exn = Type_error nat | Filesystem_error string | Undefined_conversion

definition bind_exn :: "exn + 'a \<Rightarrow> ('a \<Rightarrow> exn + 'b) \<Rightarrow> exn + 'b" where
  "bind_exn m f = (case m of Inl e \<Rightarrow> Inl e | Inr x \<Rightarrow> f x)"

text \<open>\<^verbatim>\<open>j.get<std::string>()\<close> and \<^verbatim>\<open>j.get<bool>()\<close>.\<close>

definition get_string :: "json \<Rightarrow> exn + string" where
  "get_string j = (case j of JString s \<Rightarrow> Inr s | _ \<Rightarrow> Inl (Type_error 302))"

definition get_bool :: "json \<Rightarrow> exn + bool" where
  "get_bool j = (case j of JBool b \<Rightarrow> Inr b | _ \<Rightarrow> Inl (Type_error 302))"

text \<open>
  \<^verbatim>\<open>static_cast<int>\<close> of a 64-bit integer keeps the low 32 bits, read as signed.
\<close>

definition int_of_int64 :: "int \<Rightarrow> int" where
  "int_of_int64 n = sint (word_of_int n :: 32 word)"

text \<open>
  \<^verbatim>\<open>static_cast<int>\<close> of a \<^verbatim>\<open>double\<close> truncates toward zero, and is undefined when
  the truncated value is no \<^verbatim>\<open>int\<close>.
\<close>

definition int_of_double :: "dbl \<Rightarrow> exn + int" where
  "int_of_double d =
     (let magnitude = (if 0 \<le> dbl_exponent d
                       then int (dbl_mantissa d) * 2 ^ nat (dbl_exponent d)
                       else int (dbl_mantissa d) div 2 ^ nat (- dbl_exponent d));
          t = (if dbl_negative d then - magnitude else magnitude)
      in if - 2147483648 \<le> t \<and> t \<le> 2147483647 then Inr t else Inl Undefined_conversion)"

text \<open>
  \<^verbatim>\<open>static_cast<double>\<close> of a 64-bit integer: exact below \<open>2 ^ 53\<close>, otherwise
  rounded to 53 significant bits, ties to even.
\<close>

fun bit_length :: "nat \<Rightarrow> nat" where
  "bit_length n = (if n = 0 then 0 else Suc (bit_length (n div 2)))"

declare bit_length.simps [simp del]

definition round_half_even :: "nat \<Rightarrow> nat \<Rightarrow> nat" where
  "round_half_even num den =
     (let q = num div den; r = num mod den
      in if den < 2 * r \<or> (2 * r = den \<and> odd q) then q + 1 else q)"

definition double_of_int64 :: "int \<Rightarrow> dbl" where
  "double_of_int64 n =
     (let a = nat \<bar>n\<bar>
      in if a < 2 ^ 53 then Dbl (n < 0) a 0
         else let k = bit_length a - 53
              in Dbl (n < 0) (round_half_even a (2 ^ k)) (int k))"

text \<open>
  \<^verbatim>\<open>j.get<int>()\<close> accepts numbers and booleans; \<^verbatim>\<open>j.get<double>()\<close> accepts
  numbers only. Anything else, a string included, is \<^verbatim>\<open>type_error\<close> 302.
\<close>

definition get_int :: "json \<Rightarrow> exn + int" where
  "get_int j =
     (case j of
        JInt n \<Rightarrow> Inr (int_of_int64 n)
      | JFloat d \<Rightarrow> int_of_double d
      | JBool b \<Rightarrow> Inr (if b then 1 else 0)
      | _ \<Rightarrow> Inl (Type_error 302))"

definition get_double :: "json \<Rightarrow> exn + dbl" where
  "get_double j =
     (case j of
        JInt n \<Rightarrow> Inr (double_of_int64 n)
      | JFloat d \<Rightarrow> Inr d
      | _ \<Rightarrow> Inl (Type_error 302))"

text \<open>
  \<^verbatim>\<open>std::to_string(double)\<close> prints as \<^verbatim>\<open>printf("%f")\<close> does: the value rounded to
  six decimals (ties to even, on the exact value), with at least one digit before the point.
\<close>

definition pad6 :: "nat \<Rightarrow> string" where
  "pad6 n = replicate (6 - length (to_string_nat n)) CHR ''0'' @ to_string_nat n"

definition to_string_double :: "dbl \<Rightarrow> string" where
  "to_string_double d =
     (let num = (if 0 \<le> dbl_exponent d
                 then dbl_mantissa d * 2 ^ nat (dbl_exponent d) * 1000000
                 else dbl_mantissa d * 1000000);
          den = (if 0 \<le> dbl_exponent d then 1 else 2 ^ nat (- dbl_exponent d));
          micro = round_half_even num den
      in (if dbl_negative d then ''-'' else [])
         @ to_string_nat (micro div 1000000) @ ''.'' @ pad6 (micro mod 1000000))"

text \<open>
  \<^verbatim>\<open>j.is_string()\<close>, \<^verbatim>\<open>j.contains(key)\<close> (false on anything but an object) and
  \<^verbatim>\<open>j.size()\<close> (0 for null, the number of elements of an array or object, 1 otherwise).
\<close>

definition is_string :: "json \<Rightarrow> bool" where
  "is_string j = (case j of JString s \<Rightarrow> True | _ \<Rightarrow> False)"

definition contains :: "json \<Rightarrow> string \<Rightarrow> bool" where
  "contains j key = (case j of JObject kvs \<Rightarrow> map_of kvs key \<noteq> None | _ \<Rightarrow> False)"

definition json_size :: "json \<Rightarrow> nat" where
  "json_size j =
     (case j of JNull \<Rightarrow> 0 | JArray xs \<Rightarrow> length xs | JObject kvs \<Rightarrow> length kvs | _ \<Rightarrow> 1)"

text \<open>
  \<^verbatim>\<open>j.value(key, default)\<close>: only on an object (else \<^verbatim>\<open>type_error\<close> 306); the
  default when the key is absent, otherwise the stored value converted to the default's
  type. One definition per type the program asks for.
\<close>

definition value_json :: "json \<Rightarrow> string \<Rightarrow> json \<Rightarrow> exn + json" where
  "value_json j key default_value =
     (case j of
        JObject kvs \<Rightarrow> (case map_of kvs key of None \<Rightarrow> Inr default_value | Some v \<Rightarrow> Inr v)
      | _ \<Rightarrow> Inl (Type_error 306))"

definition value_string :: "json \<Rightarrow> string \<Rightarrow> string \<Rightarrow> exn + string" where
  "value_string j key default_value =
     (case j of
        JObject kvs \<Rightarrow>
          (case map_of kvs key of None \<Rightarrow> Inr default_value | Some v \<Rightarrow> get_string v)
      | _ \<Rightarrow> Inl (Type_error 306))"

definition value_bool :: "json \<Rightarrow> string \<Rightarrow> bool \<Rightarrow> exn + bool" where
  "value_bool j key default_value =
     (case j of
        JObject kvs \<Rightarrow>
          (case map_of kvs key of None \<Rightarrow> Inr default_value | Some v \<Rightarrow> get_bool v)
      | _ \<Rightarrow> Inl (Type_error 306))"

text \<open>
  \<^verbatim>\<open>j[0]\<close> on a value that is not \<^verbatim>\<open>const\<close>: the first element of an array; null
  when the array is empty or the value is null (the library then fills the array with a
  null element); \<^verbatim>\<open>type_error\<close> 305 on anything else.
\<close>

definition index0 :: "json \<Rightarrow> exn + json" where
  "index0 j =
     (case j of
        JNull \<Rightarrow> Inr JNull
      | JArray xs \<Rightarrow> (case xs of [] \<Rightarrow> Inr JNull | x # _ \<Rightarrow> Inr x)
      | _ \<Rightarrow> Inl (Type_error 305))"

text \<open>
  \<^verbatim>\<open>j[key]\<close> on a value that is not \<^verbatim>\<open>const\<close>: the stored value; null when the key
  is absent or the value is null (the library then inserts a null entry);
  \<^verbatim>\<open>type_error\<close> 305 on anything else.
\<close>

definition at_key :: "json \<Rightarrow> string \<Rightarrow> exn + json" where
  "at_key j key =
     (case j of
        JNull \<Rightarrow> Inr JNull
      | JObject kvs \<Rightarrow> (case map_of kvs key of None \<Rightarrow> Inr JNull | Some v \<Rightarrow> Inr v)
      | _ \<Rightarrow> Inl (Type_error 305))"

section \<open>The preset extractor\<close>

text \<open>
  The three shapes in which \<^verbatim>\<open>extract_preset_settings\<close> reads a field that may be
  missing: an integer printed with \<^verbatim>\<open>std::to_string\<close> (default \<open>0\<close>), a string or
  else an integer (default empty), and the quality slider read as a \<^verbatim>\<open>double\<close>.
\<close>

definition int_field :: "json \<Rightarrow> string \<Rightarrow> exn + string" where
  "int_field j key =
     (if contains j key
      then bind_exn (at_key j key) (\<lambda>v. bind_exn (get_int v) (\<lambda>n. Inr (to_string n)))
      else Inr ''0'')"

definition string_or_int_field :: "json \<Rightarrow> string \<Rightarrow> exn + string" where
  "string_or_int_field j key =
     (if contains j key
      then bind_exn (at_key j key) (\<lambda>v.
             if is_string v then get_string v
             else bind_exn (get_int v) (\<lambda>n. Inr (to_string n)))
      else Inr [])"

definition double_field :: "json \<Rightarrow> string \<Rightarrow> exn + string" where
  "double_field j key =
     (if contains j key
      then bind_exn (at_key j key) (\<lambda>v. bind_exn (get_double v) (\<lambda>d. Inr (to_string_double d)))
      else Inr ''0'')"

text \<open>\<^verbatim>\<open>extract_preset_settings\<close>, in the order of its statements.\<close>

definition extract_preset_settings :: "json \<Rightarrow> exn + Settings" where
  "extract_preset_settings preset_data =
     bind_exn (value_json preset_data ''PresetList'' (JArray [])) (\<lambda>preset_list.
     bind_exn (index0 preset_list) (\<lambda>preset.
     bind_exn (value_json preset ''AudioList'' (JArray [])) (\<lambda>audio_list.
     bind_exn (if 0 < json_size audio_list then index0 audio_list else Inr (JObject []))
       (\<lambda>audio_settings.
     bind_exn (value_string preset ''PresetName'' []) (\<lambda>s_preset_name.
     bind_exn (value_string preset ''VideoEncoder'' []) (\<lambda>s_video_encoder.
     bind_exn (int_field preset ''VideoAvgBitrate'') (\<lambda>s_video_bitrate.
     bind_exn (value_string preset ''VideoPreset'' []) (\<lambda>s_video_preset.
     bind_exn (value_string preset ''VideoProfile'' []) (\<lambda>s_video_profile.
     bind_exn (string_or_int_field preset ''VideoFramerate'') (\<lambda>s_video_framerate.
     bind_exn (double_field preset ''VideoQualitySlider'') (\<lambda>s_video_quality.
     bind_exn (string_or_int_field preset ''VideoQualityType'') (\<lambda>s_video_quality_type.
     bind_exn (value_bool preset ''VideoMultiPass'' False) (\<lambda>s_video_multipass.
     bind_exn (int_field preset ''PictureWidth'') (\<lambda>s_picture_width.
     bind_exn (int_field preset ''PictureHeight'') (\<lambda>s_picture_height.
     bind_exn (value_string audio_settings ''AudioEncoder'' []) (\<lambda>s_audio_encoder.
     bind_exn (int_field audio_settings ''AudioBitrate'') (\<lambda>s_audio_bitrate.
     bind_exn (value_string audio_settings ''AudioMixdown'' []) (\<lambda>s_audio_mixdown.
     bind_exn (value_string preset ''FileFormat'' []) (\<lambda>s_container.
     Inr \<lparr> Settings.preset_name = s_preset_name,
           video_encoder = s_video_encoder,
           video_bitrate = s_video_bitrate,
           video_preset = s_video_preset,
           video_profile = s_video_profile,
           video_framerate = s_video_framerate,
           video_quality = s_video_quality,
           video_quality_type = s_video_quality_type,
           video_multipass = s_video_multipass,
           picture_width = s_picture_width,
           picture_height = s_picture_height,
           audio_encoder = s_audio_encoder,
           audio_bitrate = s_audio_bitrate,
           audio_mixdown = s_audio_mixdown,
           container = s_container \<rparr>)))))))))))))))))))"

section \<open>The parameter translator\<close>

definition convert_to_ffmpeg_params :: "Settings \<Rightarrow> FFmpegParams" where
  "convert_to_ffmpeg_params settings =
     \<lparr> vcodec = (if video_encoder settings = ''x265'' then ''libx265''
                 else if video_encoder settings = ''x264'' then ''libx264''
                 else video_encoder settings),
       acodec = (if rfind0 (audio_encoder settings) ''copy:'' = Some 0 then ''-c:a copy''
                 else ''-c:a aac -b:a '' @ audio_bitrate settings @ ''k''),
       audio_channels = (if audio_mixdown settings = ''5point1'' then ''-ac 6''
                         else if audio_mixdown settings = ''stereo'' then ''-ac 2''
                         else if audio_mixdown settings = ''mono'' then ''-ac 1''
                         else []),
       quality = (if video_quality_type settings = ''2''
                  then ''-crf '' @ video_quality settings
                  else ''-b:v '' @ video_bitrate settings @ ''k''),
       format = (if container settings = ''av_mkv'' then ''mkv''
                 else if container settings = ''av_mp4'' then ''mp4''
                 else ''mkv''),
       preset = video_preset settings,
       profile = video_profile settings,
       framerate = video_framerate settings,
       resolution = picture_width settings @ ''x'' @ picture_height settings,
       multipass = video_multipass settings,
       preset_name = Settings.preset_name settings \<rparr>"

section \<open>The command builder\<close>

text \<open>\<^verbatim>\<open>cmd.push_back(x)\<close> and \<^verbatim>\<open>cmd.insert(cmd.end(), first, last)\<close>.\<close>

definition push_back :: "'a list \<Rightarrow> 'a \<Rightarrow> 'a list" where
  "push_back cmd x = cmd @ [x]"

definition insert_end :: "'a list \<Rightarrow> 'a list \<Rightarrow> 'a list" where
  "insert_end cmd parts = cmd @ parts"

text \<open>
  \<^verbatim>\<open>build_ffmpeg_command\<close>, statement by statement. The two \<^verbatim>\<open>int\<close> arguments are
  only printed, so they are integers here.
\<close>

definition build_ffmpeg_command ::
  "string \<Rightarrow> string \<Rightarrow> FFmpegParams \<Rightarrow> int \<Rightarrow> int \<Rightarrow> bool \<Rightarrow> string list" where
  "build_ffmpeg_command input_file output_file ffmpeg_params analyze_duration probe_size verbose =
     (let cmd = [];
          cmd = push_back cmd ''ffmpeg'';
          cmd = push_back cmd ''-analyzeduration'';
          cmd = push_back cmd (to_string analyze_duration);
          cmd = push_back cmd ''-probesize'';
          cmd = push_back cmd (to_string probe_size);
          cmd = push_back cmd ''-i'';
          cmd = push_back cmd input_file;
          cmd = push_back cmd ''-c:v'';
          cmd = push_back cmd (vcodec ffmpeg_params);
          quality_parts = split_string (quality ffmpeg_params) space;
          cmd = insert_end cmd quality_parts;
          cmd = push_back cmd ''-preset'';
          cmd = push_back cmd (preset ffmpeg_params);
          cmd = (if framerate ffmpeg_params \<noteq> ''auto'' \<and> framerate ffmpeg_params \<noteq> []
                 then push_back (push_back cmd ''-r'') (framerate ffmpeg_params)
                 else cmd);
          cmd = push_back cmd ''-s'';
          cmd = push_back cmd (resolution ffmpeg_params);
          audio_parts = split_string (acodec ffmpeg_params) space;
          cmd = insert_end cmd audio_parts;
          cmd = (if audio_channels ffmpeg_params \<noteq> []
                 then insert_end cmd (split_string (audio_channels ffmpeg_params) space)
                 else cmd);
          cmd = (if profile ffmpeg_params \<noteq> ''auto'' \<and> profile ffmpeg_params \<noteq> []
                 then push_back (push_back cmd ''-profile:v'') (profile ffmpeg_params)
                 else cmd);
          cmd = (if \<not> verbose
                 then push_back (push_back (push_back cmd ''-v'') ''error'') ''-stats''
                 else cmd);
          cmd = push_back cmd ''-map'';
          cmd = push_back cmd ''0'';
          cmd = push_back cmd output_file
      in cmd)"

text \<open>
  \<^verbatim>\<open>get_null_device\<close> is chosen by the preprocessor; \<open>win32\<close> says whether
  \<^verbatim>\<open>_WIN32\<close> is defined.
\<close>

definition get_null_device :: "bool \<Rightarrow> string" where
  "get_null_device win32 = (if win32 then ''NUL'' else ''/dev/null'')"

text \<open>
  \<^verbatim>\<open>pop_back\<close> drops the last element; the vector it is applied to is never empty
  (the builder always pushes), so the undefined case of the C++ call does not arise.
\<close>

definition pop_back :: "'a list \<Rightarrow> 'a list" where
  "pop_back cmd = butlast cmd"

definition build_multipass_commands ::
  "bool \<Rightarrow> string \<Rightarrow> string \<Rightarrow> FFmpegParams \<Rightarrow> int \<Rightarrow> int \<Rightarrow> bool
     \<Rightarrow> string list list" where
  "build_multipass_commands win32 input_file output_file ffmpeg_params analyze_duration
     probe_size verbose =
     (let commands = [];
          null_device = get_null_device win32;
          pass1_cmd = build_ffmpeg_command input_file null_device ffmpeg_params
                        analyze_duration probe_size verbose;
          pass1_cmd = pop_back pass1_cmd;
          pass1_cmd = push_back pass1_cmd ''-pass'';
          pass1_cmd = push_back pass1_cmd ''1'';
          pass1_cmd = push_back pass1_cmd ''-f'';
          pass1_cmd = push_back pass1_cmd ''null'';
          pass1_cmd = push_back pass1_cmd null_device;
          pass2_cmd = build_ffmpeg_command input_file output_file ffmpeg_params
                        analyze_duration probe_size verbose;
          pass2_cmd = push_back pass2_cmd ''-pass'';
          pass2_cmd = push_back pass2_cmd ''2'';
          commands = push_back commands pass1_cmd;
          commands = push_back commands pass2_cmd
      in commands)"

text \<open>
  The choice between one and two invocations in \<^verbatim>\<open>process_file\<close>:
  \<^verbatim>\<open>is_multipass\<close> is the local of that name, \<open>ffmpeg_cmds\<close> the
  invocations the function then builds (both where it renders them and where it runs them).
\<close>

definition is_multipass :: "FFmpegParams \<Rightarrow> bool" where
  "is_multipass ffmpeg_params =
     (multipass ffmpeg_params \<and> find_str (quality ffmpeg_params) ''-crf'' = None)"

definition ffmpeg_cmds ::
  "bool \<Rightarrow> string \<Rightarrow> string \<Rightarrow> FFmpegParams \<Rightarrow> int \<Rightarrow> int \<Rightarrow> bool
     \<Rightarrow> string list list" where
  "ffmpeg_cmds win32 input_file output_file ffmpeg_params analyze_duration probe_size verbose =
     (if is_multipass ffmpeg_params
      then build_multipass_commands win32 input_file output_file ffmpeg_params
             analyze_duration probe_size verbose
      else [build_ffmpeg_command input_file output_file ffmpeg_params
              analyze_duration probe_size verbose])"

section \<open>Rendering a command, and the output directory of \<open>main\<close>\<close>

text \<open>
  \<^verbatim>\<open>process_file\<close> renders an invocation for display by escaping every argument and
  joining the results with single spaces.
\<close>

definition render :: "string list \<Rightarrow> string" where
  "render cmd = join_string (map escape_string cmd) '' ''"

text \<open>\<^verbatim>\<open>s.replace(pos, len, str)\<close>, for a position inside the string.\<close>

definition string_replace :: "string \<Rightarrow> nat \<Rightarrow> nat \<Rightarrow> string \<Rightarrow> string" where
  "string_replace s pos len str = take pos s @ str @ drop (pos + len) s"

text \<open>
  The block of \<^verbatim>\<open>main\<close> commented ``make sure output directory doesn't contain
  duplicate "converted" subdirectories'': \<^verbatim>\<open>fs::path("converted") / "converted"\<close> is
  \<open>converted/converted\<close> (the conversion of a path to \<^verbatim>\<open>std::string\<close> that the block
  uses exists only where the separator is \<open>/\<close>).
\<close>

definition main_output_dir :: "string \<Rightarrow> string" where
  "main_output_dir output_dir =
     (let converted_path = ''converted'';
          double_converted = ''converted/converted''
      in case find_str output_dir double_converted of
           None \<Rightarrow> output_dir
         | Some pos \<Rightarrow> string_replace output_dir pos (length double_converted) converted_path)"

section \<open>The operating system, and programs that use it\<close>

text \<open>
  What a run does that can be observed: a line written to standard output, and a command
  handed to \<^verbatim>\<open>system()\<close> together with the status that call returned.
\<close>

datatype event = Out string | Sys string int

text \<open>
  The filesystem library and the process call are outside the program. They are taken as
  a record of functions over a state of the world \<open>'w\<close>: the lexical operations on paths,
  the queries (which may fail with a \<^verbatim>\<open>filesystem_error\<close>, here its message), the
  operations that change the filesystem, the opening of an output stream, and
  \<^verbatim>\<open>system()\<close>. A path is the string it was made from. Permissions are the bits of
  \<^verbatim>\<open>fs::perms\<close>, so \<^verbatim>\<open>fs::perms::none\<close> is 0.
\<close>

record 'w os =
  path_parent :: "string \<Rightarrow> string"
  path_stem :: "string \<Rightarrow> string"
  path_append :: "string \<Rightarrow> string \<Rightarrow> string"
  fs_relative :: "string \<Rightarrow> string \<Rightarrow> 'w \<Rightarrow> string + string"
  fs_exists :: "string \<Rightarrow> 'w \<Rightarrow> string + bool"
  fs_is_directory :: "string \<Rightarrow> 'w \<Rightarrow> string + bool"
  fs_permissions :: "string \<Rightarrow> 'w \<Rightarrow> string + nat"
  fs_equivalent :: "string \<Rightarrow> string \<Rightarrow> 'w \<Rightarrow> string + bool"
  fs_create_directories :: "string \<Rightarrow> 'w \<Rightarrow> (string + bool) \<times> 'w"
  fs_remove :: "string \<Rightarrow> 'w \<Rightarrow> (string + bool) \<times> 'w"
  fs_rename :: "string \<Rightarrow> string \<Rightarrow> 'w \<Rightarrow> (string + unit) \<times> 'w"
  ofstream_open :: "string \<Rightarrow> 'w \<Rightarrow> bool \<times> 'w"
  os_system :: "string \<Rightarrow> 'w \<Rightarrow> int \<times> 'w"

text \<open>
  A program that uses the world: from a state of the world it returns a value or throws,
  leaves a new state, and has produced a sequence of events.
\<close>

type_synonym ('a, 'w) io = "'w \<Rightarrow> (exn + 'a) \<times> 'w \<times> event list"

definition io_return :: "'a \<Rightarrow> ('a, 'w) io" where
  "io_return x = (\<lambda>w. (Inr x, w, []))"

definition io_bind :: "('a, 'w) io \<Rightarrow> ('a \<Rightarrow> ('b, 'w) io) \<Rightarrow> ('b, 'w) io" where
  "io_bind m f =
     (\<lambda>w. case m w of
            (Inl e, w', t) \<Rightarrow> (Inl e, w', t)
          | (Inr x, w', t) \<Rightarrow> (case f x w' of (r, w'', t') \<Rightarrow> (r, w'', t @ t')))"

text \<open>
  \<^verbatim>\<open>try { m } catch (const E& e) { h }\<close>, the handler reading \<^verbatim>\<open>e.what()\<close>. The
  statements under a \<^verbatim>\<open>try\<close> of this program call nothing but the filesystem
  library and \<^verbatim>\<open>system()\<close>, so the only exception its handlers
  (\<^verbatim>\<open>filesystem_error\<close>, \<^verbatim>\<open>std::exception\<close>, \<^verbatim>\<open>...\<close>) ever receive is a
  \<^verbatim>\<open>filesystem_error\<close>; the exceptions of the JSON library arise in the extractor,
  outside every \<^verbatim>\<open>try\<close>.
\<close>

definition io_catch :: "('a, 'w) io \<Rightarrow> (string \<Rightarrow> ('a, 'w) io) \<Rightarrow> ('a, 'w) io" where
  "io_catch m h =
     (\<lambda>w. case m w of
            (Inl (Filesystem_error what), w', t) \<Rightarrow>
              (case h what w' of (r, w'', t') \<Rightarrow> (r, w'', t @ t'))
          | (r, w', t) \<Rightarrow> (r, w', t))"

definition cout :: "string \<Rightarrow> (unit, 'w) io" where
  "cout line = (\<lambda>w. (Inr (), w, [Out line]))"

definition io_query :: "('w \<Rightarrow> string + 'a) \<Rightarrow> ('a, 'w) io" where
  "io_query q =
     (\<lambda>w. case q w of Inl what \<Rightarrow> (Inl (Filesystem_error what), w, []) | Inr x \<Rightarrow> (Inr x, w, []))"

definition io_action :: "('w \<Rightarrow> (string + 'a) \<times> 'w) \<Rightarrow> ('a, 'w) io" where
  "io_action a =
     (\<lambda>w. case a w of
            (Inl what, w') \<Rightarrow> (Inl (Filesystem_error what), w', [])
          | (Inr x, w') \<Rightarrow> (Inr x, w', []))"

definition io_open :: "'w os \<Rightarrow> string \<Rightarrow> (bool, 'w) io" where
  "io_open os file = (\<lambda>w. case ofstream_open os file w of (opened, w') \<Rightarrow> (Inr opened, w', []))"

definition io_system :: "'w os \<Rightarrow> string \<Rightarrow> (int, 'w) io" where
  "io_system os command =
     (\<lambda>w. case os_system os command w of (status, w') \<Rightarrow> (Inr status, w', [Sys command status]))"

text \<open>The commands of a trace that went to \<^verbatim>\<open>system()\<close>, with their statuses, in order.\<close>

fun dispatched :: "event list \<Rightarrow> (string \<times> int) list" where
  "dispatched [] = []"
| "dispatched (Out line # t) = dispatched t"
| "dispatched (Sys command status # t) = (command, status) # dispatched t"

text \<open>
  Writing a \<^verbatim>\<open>fs::path\<close> to a stream quotes it: double quotes around it, a backslash
  before every double quote and backslash inside.
\<close>

definition quoted :: "string \<Rightarrow> string" where
  "quoted s =
     [dquote] @ concat (map (\<lambda>c. if c = dquote \<or> c = CHR 0x5C then [CHR 0x5C, c] else [c]) s)
     @ [dquote]"

definition squote :: char where
  "squote = CHR 0x27"

section \<open>The batch orchestrator\<close>

definition should_ignore_file :: "'w os \<Rightarrow> string \<Rightarrow> string \<Rightarrow> (bool, 'w) io" where
  "should_ignore_file os file_path ignore_flag =
     (let dir_path = path_parent os file_path
      in io_bind (io_query (fs_exists os (path_append os dir_path ignore_flag))) (\<lambda>found.
         if found then io_return True else io_return False))"

definition format_filename :: "string \<Rightarrow> bool \<Rightarrow> string" where
  "format_filename basename replace_underscores =
     (if replace_underscores
      then map (\<lambda>c. if c = CHR ''_'' then CHR '' '' else c) basename
      else basename)"

definition check_file_access :: "'w os \<Rightarrow> string \<Rightarrow> (bool, 'w) io" where
  "check_file_access os file_path =
     (let dir_path = path_parent os file_path
      in io_bind (io_query (fs_is_directory os dir_path)) (\<lambda>is_dir.
         if \<not> is_dir
         then io_bind (cout (''Error: Output directory '' @ [squote] @ dir_path @ [squote]
                             @ '' does not exist.'')) (\<lambda>_. io_return False)
         else
         io_bind (io_query (fs_exists os file_path)) (\<lambda>file_exists.
         io_bind (if file_exists
                  then io_bind (io_query (fs_permissions os file_path)) (\<lambda>perms.
                         io_return (perms = 0))
                  else io_return False) (\<lambda>no_permissions.
         if no_permissions
         then io_bind (cout (''Error: Output file '' @ [squote] @ file_path @ [squote]
                             @ '' exists but is not writable.'')) (\<lambda>_. io_return False)
         else
         io_catch
           (let test_file = path_append os dir_path ''.write_test_temp''
            in io_bind (io_open os test_file) (\<lambda>opened.
               if \<not> opened
               then io_bind (cout (''Error: Output directory '' @ [squote] @ dir_path @ [squote]
                                   @ '' is not writable.'')) (\<lambda>_. io_return False)
               else io_bind (io_action (fs_remove os test_file)) (\<lambda>_. io_return True)))
           (\<lambda>what.
               io_bind (cout (''Error: Output directory '' @ [squote] @ dir_path @ [squote]
                              @ '' is not writable.'')) (\<lambda>_. io_return False))))))"

definition execute_command :: "'w os \<Rightarrow> string list \<Rightarrow> bool \<Rightarrow> (int, 'w) io" where
  "execute_command os cmd verbose =
     (let command = join_string cmd '' ''
      in io_bind (if verbose then cout (''Executing: '' @ command) else io_return ()) (\<lambda>_.
         io_system os command))"

definition rename_to_m4v :: "'w os \<Rightarrow> string \<Rightarrow> bool \<Rightarrow> (bool, 'w) io" where
  "rename_to_m4v os file_path dry_run =
     (let m4v_path = path_append os (path_parent os file_path) (path_stem os file_path @ ''.m4v'')
      in if dry_run
         then io_bind (cout (''[DRY RUN] Would rename '' @ file_path @ '' to '' @ quoted m4v_path))
                (\<lambda>_. io_return True)
         else
         io_bind (cout (''Renaming '' @ file_path @ '' to '' @ quoted m4v_path)) (\<lambda>_.
         io_bind (io_query (fs_exists os file_path)) (\<lambda>file_exists.
         if file_exists
         then io_catch
                (io_bind (io_action (fs_rename os file_path m4v_path)) (\<lambda>_. io_return True))
                (\<lambda>what. io_bind (cout (''Error renaming file to .m4v: '' @ what))
                           (\<lambda>_. io_return False))
         else io_bind (cout (''Error: File '' @ file_path @ '' not found for renaming''))
                (\<lambda>_. io_return False))))"

definition ffprobe_command :: "string \<Rightarrow> string" where
  "ffprobe_command file_path =
     ''ffprobe -hide_banner -v error -show_format -show_streams '' @ [dquote] @ file_path
     @ [dquote]"

definition get_file_info :: "'w os \<Rightarrow> string \<Rightarrow> (unit, 'w) io" where
  "get_file_info os file_path =
     io_bind (cout (''File information for '' @ file_path @ '':'')) (\<lambda>_.
     io_bind (io_system os (ffprobe_command file_path)) (\<lambda>_. io_return ()))"

text \<open>
  The parts of \<^verbatim>\<open>process_file\<close>, in the order of its text. First the output paths
  (from the relative path of the input to the path of the output file).
\<close>

definition output_subdir_path :: "'w os \<Rightarrow> string \<Rightarrow> string \<Rightarrow> string" where
  "output_subdir_path os output_dir rel_path =
     (let dir_part = path_parent os rel_path
      in if dir_part \<noteq> [] then path_append os output_dir dir_part else output_dir)"

definition output_file_path ::
  "'w os \<Rightarrow> string \<Rightarrow> string \<Rightarrow> string \<Rightarrow> string \<Rightarrow> bool \<Rightarrow> bool \<Rightarrow> bool \<Rightarrow> string
     \<Rightarrow> string" where
  "output_file_path os input_file output_dir original_format output_format force_m4v execute
     replace_underscores rel_path =
     (let output_subdir = output_subdir_path os output_dir rel_path;
          basename = path_stem os input_file;
          formatted_basename = format_filename basename replace_underscores;
          actual_format = (if force_m4v \<and> execute then original_format else output_format)
      in path_append os output_subdir (formatted_basename @ ''.'' @ actual_format))"

text \<open>``Create output subdirectory if needed''; \<open>False\<close> is the \<^verbatim>\<open>return 1\<close>.\<close>

definition ensure_output_subdir :: "'w os \<Rightarrow> string \<Rightarrow> bool \<Rightarrow> (bool, 'w) io" where
  "ensure_output_subdir os output_subdir dry_run =
     io_bind (io_query (fs_exists os output_subdir)) (\<lambda>subdir_exists.
     if \<not> subdir_exists
     then if \<not> dry_run
          then io_bind (cout (''Creating output directory: '' @ quoted output_subdir)) (\<lambda>_.
               io_catch
                 (io_bind (io_action (fs_create_directories os output_subdir))
                    (\<lambda>_. io_return True))
                 (\<lambda>what. io_bind (cout (''Error creating directory: '' @ quoted output_subdir
                                          @ '': '' @ what)) (\<lambda>_. io_return False)))
          else io_bind (cout (''[DRY RUN] Would create directory: '' @ quoted output_subdir))
                 (\<lambda>_. io_return True)
     else io_return True)"

text \<open>The loop ``for multipass, run commands sequentially'', from pass \<open>i\<close> of \<open>n\<close>.\<close>

fun run_passes :: "'w os \<Rightarrow> bool \<Rightarrow> nat \<Rightarrow> nat \<Rightarrow> string list list \<Rightarrow> (int, 'w) io" where
  "run_passes os verbose i n [] = io_return 0"
| "run_passes os verbose i n (cmd # cmds) =
     io_bind (cout (''Running pass '' @ to_string_nat (i + 1) @ '' of '' @ to_string_nat n
                    @ ''...'')) (\<lambda>_.
     io_bind (execute_command os cmd verbose) (\<lambda>result_code.
     if result_code \<noteq> 0 then io_return result_code
     else run_passes os verbose (Suc i) n cmds))"

text \<open>The branch \<^verbatim>\<open>else if (execute)\<close>.\<close>

definition execute_branch ::
  "'w os \<Rightarrow> bool \<Rightarrow> string \<Rightarrow> string \<Rightarrow> FFmpegParams \<Rightarrow> bool \<Rightarrow> bool \<Rightarrow> int \<Rightarrow> int \<Rightarrow> bool
     \<Rightarrow> string \<Rightarrow> (int, 'w) io" where
  "execute_branch os win32 input_file output_file ffmpeg_params force_m4v dry_run
     analyze_duration probe_size verbose ffmpeg_cmd_str =
     io_bind (cout (''Processing: '' @ input_file)) (\<lambda>_.
     io_bind (cout (''Output: '' @ quoted output_file)) (\<lambda>_.
     io_bind (cout (''Command: '' @ ffmpeg_cmd_str)) (\<lambda>_.
     io_catch
       (io_bind
          (if is_multipass ffmpeg_params
           then (let ffmpeg_cmds = build_multipass_commands win32 input_file output_file
                                     ffmpeg_params analyze_duration probe_size verbose
                 in run_passes os verbose 0 (length ffmpeg_cmds) ffmpeg_cmds)
           else (let ffmpeg_cmd = build_ffmpeg_command input_file output_file
                                    ffmpeg_params analyze_duration probe_size verbose
                 in execute_command os ffmpeg_cmd verbose)) (\<lambda>result_code.
        if result_code = 0
        then io_bind (cout ''Conversion successful'') (\<lambda>_.
             io_bind (if force_m4v
                      then io_bind (rename_to_m4v os output_file dry_run) (\<lambda>renamed.
                           if \<not> renamed then cout ''Warning: Failed to rename file to .m4v''
                           else io_return ())
                      else io_return ()) (\<lambda>_.
             io_return 0))
        else io_bind (cout (''Error: FFmpeg command failed with return code ''
                            @ to_string result_code)) (\<lambda>_.
             io_bind (cout ''Checking input file...'') (\<lambda>_.
             io_bind (get_file_info os input_file) (\<lambda>_.
             io_return 1)))))
       (\<lambda>what. io_bind (cout (''Error executing command: '' @ what)) (\<lambda>_. io_return 1)))))"

text \<open>\<^verbatim>\<open>process_file\<close>; its value is the \<^verbatim>\<open>int\<close> it returns.\<close>

definition process_file ::
  "'w os \<Rightarrow> bool \<Rightarrow> string \<Rightarrow> string \<Rightarrow> string \<Rightarrow> FFmpegParams \<Rightarrow> string \<Rightarrow> string
     \<Rightarrow> bool \<Rightarrow> bool \<Rightarrow> bool \<Rightarrow> bool \<Rightarrow> int \<Rightarrow> int \<Rightarrow> bool \<Rightarrow> (int, 'w) io" where
  "process_file os win32 input_file media_dir output_dir ffmpeg_params original_format
     output_format force_m4v execute dry_run replace_underscores analyze_duration probe_size
     verbose =
     io_bind (io_query (fs_relative os input_file media_dir)) (\<lambda>rel_path.
     let output_subdir = output_subdir_path os output_dir rel_path;
         actual_format = (if force_m4v \<and> execute then original_format else output_format);
         output_file = output_file_path os input_file output_dir original_format output_format
                         force_m4v execute replace_underscores rel_path
     in
     io_bind (ensure_output_subdir os output_subdir dry_run) (\<lambda>subdir_ok.
     if \<not> subdir_ok then io_return 1
     else
     io_bind (if \<not> dry_run \<and> execute then check_file_access os output_file
              else io_return True) (\<lambda>access_ok.
     if \<not> access_ok
     then io_bind (cout (''Skipping '' @ input_file @ '' due to output file access issues.''))
            (\<lambda>_. io_return 1)
     else
     let ffmpeg_cmd_str =
           join_string
             (map render (ffmpeg_cmds win32 input_file output_file ffmpeg_params
                            analyze_duration probe_size verbose)) '' && ''
     in
     if dry_run
     then io_bind (cout ''[DRY RUN] Would execute:'') (\<lambda>_.
          io_bind (cout ffmpeg_cmd_str) (\<lambda>_.
          io_bind (if force_m4v
                   then (let m4v_output = path_append os (path_parent os output_file)
                                            (path_stem os output_file @ ''.m4v'')
                         in cout (''[DRY RUN] Would rename '' @ quoted output_file @ '' to ''
                                  @ quoted m4v_output))
                   else io_return ()) (\<lambda>_.
          io_return 0)))
     else if execute
     then execute_branch os win32 input_file output_file ffmpeg_params force_m4v dry_run
            analyze_duration probe_size verbose ffmpeg_cmd_str
     else io_bind (cout (''Generated command for '' @ input_file @ '':'')) (\<lambda>_.
          io_bind (cout ffmpeg_cmd_str) (\<lambda>_.
          io_bind (if force_m4v
                   then cout (''Note: If executed, the file will be converted to ''
                              @ actual_format @ '' then renamed to .m4v'')
                   else io_return ()) (\<lambda>_.
          io_return 0))))))"

text \<open>
  The options of the command line that the loop of \<^verbatim>\<open>main\<close> reads, the three
  counters of that loop, and the loop: its body for one file, then the files in order.
\<close>

record CmdOptions =
  json_file :: string
  recursive :: bool
  execute :: bool
  dry_run :: bool
  show_preset :: bool
  force_m4v :: bool
  no_underscore_replace :: bool
  verbose :: bool
  input_dir :: string
  output_dir :: string
  ignore_flag :: string
  log_file :: string

record counters =
  file_count :: int
  skipped_count :: int
  error_count :: int

definition main_loop_body ::
  "'w os \<Rightarrow> bool \<Rightarrow> CmdOptions \<Rightarrow> FFmpegParams \<Rightarrow> string \<Rightarrow> string \<Rightarrow> int \<Rightarrow> int
     \<Rightarrow> string \<Rightarrow> counters \<Rightarrow> (counters, 'w) io" where
  "main_loop_body os win32 args ffmpeg_params original_format output_format analyze_duration
     probe_size file counts =
     io_bind (io_query (fs_equivalent os file (json_file args))) (\<lambda>is_json.
     if is_json then io_return counts
     else
     io_bind (should_ignore_file os file (ignore_flag args)) (\<lambda>ignored.
     if ignored
     then io_bind (cout (''Skipping: '' @ file @ '' (ignore flag found)'')) (\<lambda>_.
          io_return (counts\<lparr>skipped_count := skipped_count counts + 1\<rparr>))
     else
     io_bind (process_file os win32 file (input_dir args) (output_dir args) ffmpeg_params
                original_format output_format (force_m4v args) (execute args) (dry_run args)
                (\<not> no_underscore_replace args) analyze_duration probe_size (verbose args))
       (\<lambda>result.
     if result = 0
     then io_return (counts\<lparr>file_count := file_count counts + 1\<rparr>)
     else io_bind (cout (''Failed to process: '' @ file)) (\<lambda>_.
          io_return (counts\<lparr>error_count := error_count counts + 1\<rparr>)))))"

fun main_loop ::
  "'w os \<Rightarrow> bool \<Rightarrow> CmdOptions \<Rightarrow> FFmpegParams \<Rightarrow> string \<Rightarrow> string \<Rightarrow> int \<Rightarrow> int
     \<Rightarrow> string list \<Rightarrow> counters \<Rightarrow> (counters, 'w) io" where
  "main_loop os win32 args ffmpeg_params original_format output_format analyze_duration
     probe_size [] counts = io_return counts"
| "main_loop os win32 args ffmpeg_params original_format output_format analyze_duration
     probe_size (file # files) counts =
     io_bind (main_loop_body os win32 args ffmpeg_params original_format output_format
                analyze_duration probe_size file counts) (\<lambda>counts'.
     main_loop os win32 args ffmpeg_params original_format output_format analyze_duration
       probe_size files counts')"

section \<open>Reading a rendered command back\<close>

text \<open>
  Modelled from the spec: the parser of the round-trip property, which the repository
  does not contain. The spec describes it as ``parsing the rendered string back into
  space-separated tokens (respecting quoted segments)'': a space outside double quotes
  ends a token, a double quote opens or closes a quoted segment and is not part of the
  token, and runs of spaces separate tokens without producing empty ones.
\<close>

fun tokenize_from :: "bool \<Rightarrow> string \<Rightarrow> string \<Rightarrow> string list" where
  "tokenize_from in_quotes token [] = (if token = [] then [] else [token])"
| "tokenize_from in_quotes token (c # cs) =
     (if c = dquote then tokenize_from (\<not> in_quotes) token cs
      else if c = space \<and> \<not> in_quotes
           then (if token = [] then [] else [token]) @ tokenize_from False [] cs
           else tokenize_from in_quotes (token @ [c]) cs)"

definition tokenize :: "string \<Rightarrow> string list" where
  "tokenize s = tokenize_from False [] s"

section \<open>Runs that dispatch nothing\<close>

text \<open>A program is quiet when no run of it hands a command to \<^verbatim>\<open>system()\<close>.\<close>

definition quiet :: "('a, 'w) io \<Rightarrow> bool" where
  "quiet m = (\<forall>w. dispatched (snd (snd (m w))) = [])"

section \<open>Concrete inputs\<close>

text \<open>Documents and parameter records on which the statements are instantiated.\<close>

definition p_crf :: FFmpegParams where
  "p_crf = \<lparr> vcodec = ''libx265'', acodec = ''-c:a copy'', audio_channels = ''-ac 2'',
          quality = ''-crf 22.000000'', format = ''mkv'', preset = ''slow'', profile = ''main'',
          framerate = ''30'', resolution = ''1920x1080'', multipass = True, preset_name = ''HQ'' \<rparr>"

definition p_empty_preset :: FFmpegParams where
  "p_empty_preset = \<lparr> vcodec = ''libx264'', acodec = ''-c:a copy'', audio_channels = [],
          quality = ''-b:v 1500k'', format = ''mkv'', preset = [], profile = [],
          framerate = ''auto'', resolution = ''0x0'', multipass = True, preset_name = [] \<rparr>"

text \<open>
  The preset of the end-to-end example: encoder \<open>x265\<close>, quality mode \<open>2\<close>, quality
  slider 20, container \<open>av_mkv\<close>, and the settings the extractor returns for it.
\<close>

definition doc_x265 :: json where
  "doc_x265 = JObject [(''PresetList'', JArray [JObject
     [(''VideoEncoder'', JString ''x265''),
      (''VideoQualityType'', JString ''2''),
      (''VideoQualitySlider'', JInt 20),
      (''FileFormat'', JString ''av_mkv'')]])]"

definition settings_x265 :: Settings where
  "settings_x265 = \<lparr> Settings.preset_name = [], video_encoder = ''x265'', video_bitrate = ''0'',
     video_preset = [], video_profile = [], video_framerate = [],
     video_quality = ''20.000000'', video_quality_type = ''2'', video_multipass = False,
     picture_width = ''0'', picture_height = ''0'', audio_encoder = [],
     audio_bitrate = ''0'', audio_mixdown = [], container = ''av_mkv'' \<rparr>"

text \<open>
  Presets in which one numeric field is a numeric string: the video bitrate, the picture
  width, the picture height, and the bitrate of the first audio track.
\<close>

definition doc_string_video_bitrate :: json where
  "doc_string_video_bitrate =
     JObject [(''PresetList'', JArray [JObject [(''VideoAvgBitrate'', JString ''1500'')]])]"

definition doc_string_width :: json where
  "doc_string_width =
     JObject [(''PresetList'', JArray [JObject [(''PictureWidth'', JString ''1920'')]])]"

definition doc_string_height :: json where
  "doc_string_height =
     JObject [(''PresetList'', JArray [JObject [(''PictureHeight'', JString ''1080'')]])]"

definition doc_string_audio_bitrate :: json where
  "doc_string_audio_bitrate =
     JObject [(''PresetList'', JArray [JObject
       [(''AudioList'', JArray [JObject [(''AudioBitrate'', JString ''160'')]])]])]"

text \<open>The same four fields as native numbers.\<close>

definition doc_native_numbers :: json where
  "doc_native_numbers =
     JObject [(''PresetList'', JArray [JObject
       [(''VideoAvgBitrate'', JInt 1500),
        (''PictureWidth'', JInt 1920),
        (''PictureHeight'', JFloat (Dbl False 1080 0)),
        (''AudioList'', JArray [JObject [(''AudioBitrate'', JInt 160)]])]])]"

text \<open>
  Two parameter records and an input path with embedded double quotes, whose commands
  differ but are rendered alike.
\<close>

definition p_quote_a :: FFmpegParams where
  "p_quote_a = \<lparr> vcodec = [dquote] @ ''x'' @ [dquote], acodec = ''-c:a copy'',
          audio_channels = [], quality = ''-c:v v q'', format = ''mkv'', preset = ''fast'',
          profile = [], framerate = [], resolution = ''0x0'', multipass = False,
          preset_name = [] \<rparr>"

definition p_quote_b :: FFmpegParams where
  "p_quote_b = \<lparr> vcodec = ''v'', acodec = ''-c:a copy'',
          audio_channels = [], quality = ''q'', format = ''mkv'', preset = ''fast'',
          profile = [], framerate = [], resolution = ''0x0'', multipass = False,
          preset_name = [] \<rparr>"

definition input_quote_b :: string where
  "input_quote_b = ''a b'' @ [dquote] @ '' -c:v '' @ [dquote] @ ''x''"

text \<open>
  A small operating system to run the orchestrator on: paths are split at \<open>/\<close> and at the
  last dot, the listed files and directories exist, every existing file has the given
  permission bits, every directory is writable, and every command returns the given status.
  Permission bits 292 are octal 444: readable by all, writable by none.
\<close>

definition stub_parent :: "string \<Rightarrow> string" where
  "stub_parent p = (if CHR ''/'' \<in> set p
                    then rev (drop 1 (dropWhile (\<lambda>c. c \<noteq> CHR ''/'') (rev p))) else [])"

definition stub_filename :: "string \<Rightarrow> string" where
  "stub_filename p = rev (takeWhile (\<lambda>c. c \<noteq> CHR ''/'') (rev p))"

definition stub_stem :: "string \<Rightarrow> string" where
  "stub_stem p = (let f = stub_filename p
                  in if CHR ''.'' \<in> set f
                     then rev (drop 1 (dropWhile (\<lambda>c. c \<noteq> CHR ''.'') (rev f))) else f)"

definition stub_append :: "string \<Rightarrow> string \<Rightarrow> string" where
  "stub_append a b = (if a = [] then b else a @ ''/'' @ b)"

definition stub_relative :: "string \<Rightarrow> string \<Rightarrow> string" where
  "stub_relative p base = (if prefix (base @ ''/'') p then drop (length base + 1) p else p)"

definition stub_os :: "string list \<Rightarrow> string list \<Rightarrow> nat \<Rightarrow> int \<Rightarrow> unit os" where
  "stub_os files dirs perms status =
     \<lparr> path_parent = stub_parent,
       path_stem = stub_stem,
       path_append = stub_append,
       fs_relative = (\<lambda>p base w. Inr (stub_relative p base)),
       fs_exists = (\<lambda>p w. Inr (p \<in> set files \<or> p \<in> set dirs)),
       fs_is_directory = (\<lambda>p w. Inr (p \<in> set dirs)),
       fs_permissions = (\<lambda>p w. Inr perms),
       fs_equivalent = (\<lambda>p q w. Inr (p = q)),
       fs_create_directories = (\<lambda>p w. (Inr True, w)),
       fs_remove = (\<lambda>p w. (Inr True, w)),
       fs_rename = (\<lambda>p q w. (Inr (), w)),
       ofstream_open = (\<lambda>p w. (True, w)),
       os_system = (\<lambda>command w. (status, w)) \<rparr>"

text \<open>
  A two-pass parameter record, the options of an executing run, and counters at zero.
\<close>

definition p_two_pass :: FFmpegParams where
  "p_two_pass = \<lparr> vcodec = ''libx264'', acodec = ''-c:a copy'', audio_channels = [],
          quality = ''-b:v 1500k'', format = ''mkv'', preset = ''fast'', profile = [],
          framerate = [], resolution = ''1280x720'', multipass = True, preset_name = [] \<rparr>"

definition args_execute :: CmdOptions where
  "args_execute = \<lparr> json_file = ''in/preset.json'', recursive = False, execute = True,
      dry_run = False, show_preset = False, force_m4v = False, no_underscore_replace = False,
      verbose = True, input_dir = ''in'', output_dir = ''out'', ignore_flag = ''.noconvert'',
      log_file = [] \<rparr>"

definition counts0 :: counters where
  "counts0 = \<lparr> file_count = 0, skipped_count = 0, error_count = 0 \<rparr>"

section \<open>Evaluation rules\<close>

text \<open>
  Rewrite rules that evaluate the printing functions on numerals without unfolding a
  recursive equation under an undecided condition.
\<close>

lemma to_string_nat_digit: "n < 10 \<Longrightarrow> to_string_nat n = [''0123456789'' ! n]"
  by (simp add: to_string_nat.simps)

lemma to_string_nat_step:
  "10 \<le> n \<Longrightarrow> to_string_nat n = to_string_nat (n div 10) @ [''0123456789'' ! (n mod 10)]"
  by (subst to_string_nat.simps) simp

lemma replicate_pos: "0 < n \<Longrightarrow> replicate n x = x # replicate (n - 1) x"
  by (cases n) simp_all

lemmas to_string_eval = to_string_def to_string_nat_digit to_string_nat_step replicate_pos

lemmas json_eval = bind_exn_def
  value_json_def value_string_def value_bool_def index0_def json_size_def
  int_field_def string_or_int_field_def double_field_def contains_def at_key_def
  get_string_def get_bool_def get_int_def get_double_def is_string_def
  int_of_int64_def double_of_int64_def int_of_double_def
  to_string_double_def round_half_even_def pad6_def Let_def

lemmas split_eval = split_string_def split_loop.simps space_def

lemmas stub_eval = stub_os_def stub_parent_def stub_filename_def stub_stem_def stub_append_def
  stub_relative_def

lemmas io_eval = io_bind_def io_return_def io_catch_def cout_def io_query_def io_action_def
  io_open_def io_system_def

lemmas orchestrator_eval = main_loop_body_def process_file_def ensure_output_subdir_def
  check_file_access_def execute_branch_def execute_command_def get_file_info_def
  should_ignore_file_def rename_to_m4v_def output_file_path_def output_subdir_path_def
  format_filename_def ffmpeg_cmds_def is_multipass_def find_str_def Let_def

section \<open>Properties of the command builder\<close>

lemma split_string_Nil: "split_string [] d = []"
  by (simp add: split_string_def split_loop.simps)

lemma build_ffmpeg_command_unfold:
  "build_ffmpeg_command i out p ad ps v =
     [''ffmpeg'', ''-analyzeduration'', to_string ad, ''-probesize'', to_string ps,
      ''-i'', i, ''-c:v'', vcodec p]
     @ split_string (quality p) space
     @ [''-preset'', preset p]
     @ (if framerate p \<noteq> [] \<and> framerate p \<noteq> ''auto'' then [''-r'', framerate p] else [])
     @ [''-s'', resolution p]
     @ split_string (acodec p) space
     @ (if audio_channels p \<noteq> [] then split_string (audio_channels p) space else [])
     @ (if profile p \<noteq> [] \<and> profile p \<noteq> ''auto'' then [''-profile:v'', profile p] else [])
     @ (if \<not> v then [''-v'', ''error'', ''-stats''] else [])
     @ [''-map'', ''0'', out]"
  by (simp add: build_ffmpeg_command_def push_back_def insert_end_def)

lemma build_ffmpeg_command_snoc:
  "\<exists>body. \<forall>out. build_ffmpeg_command i out p ad ps v = body @ [out]"
  by (simp add: build_ffmpeg_command_unfold)

lemma length_build_multipass_commands:
  "length (build_multipass_commands win32 i out p ad ps v) = 2"
  by (simp add: build_multipass_commands_def push_back_def Let_def)

text \<open>
  C3. For every input path, output path, parameter record, analyze-duration, probe-size
  and verbose flag, \<^verbatim>\<open>build_ffmpeg_command\<close> returns exactly this argument list, in
  this order: the program name, the analyze-duration and probe-size flags with their
  values, the input flag and path, the video codec flag and value, the quality fragment
  split on spaces, the speed-preset flag and value, the framerate flag and value only when
  the framerate is neither empty nor \<open>auto\<close>, the resolution flag and value, the audio
  codec fragment split on spaces, the audio channel fragment split when it is not empty,
  the profile flag and value only when the profile is neither empty nor \<open>auto\<close>, the
  quiet-mode flags only when \<open>verbose\<close> is false, the map flag, and the output path.
\<close>

theorem build_ffmpeg_command_argument_order:
  fixes verbose :: bool
  shows "build_ffmpeg_command input_file output_file p analyze_duration probe_size verbose =
     [''ffmpeg'', ''-analyzeduration'', to_string analyze_duration,
      ''-probesize'', to_string probe_size, ''-i'', input_file, ''-c:v'', vcodec p]
     @ split_string (quality p) space
     @ [''-preset'', preset p]
     @ (if framerate p \<noteq> [] \<and> framerate p \<noteq> ''auto'' then [''-r'', framerate p] else [])
     @ [''-s'', resolution p]
     @ split_string (acodec p) space
     @ (if audio_channels p \<noteq> [] then split_string (audio_channels p) space else [])
     @ (if profile p \<noteq> [] \<and> profile p \<noteq> ''auto'' then [''-profile:v'', profile p] else [])
     @ (if \<not> verbose then [''-v'', ''error'', ''-stats''] else [])
     @ [''-map'', ''0'', output_file]"
  by (simp add: build_ffmpeg_command_def push_back_def insert_end_def)

text \<open>
  C4. \<^verbatim>\<open>build_multipass_commands\<close> returns exactly two invocations. The first is
  the single-pass invocation built with the null device as output, without its last
  argument (which is that null device), followed by \<open>-pass 1 -f null\<close> and the null
  device; the second is the single-pass invocation built with the real output path,
  followed by \<open>-pass 2\<close>.
\<close>

theorem build_multipass_commands_two_passes:
  fixes verbose :: bool
  shows "build_multipass_commands win32 input_file output_file p analyze_duration probe_size verbose =
     [butlast (build_ffmpeg_command input_file (get_null_device win32) p
                 analyze_duration probe_size verbose)
        @ [''-pass'', ''1'', ''-f'', ''null'', get_null_device win32],
      build_ffmpeg_command input_file output_file p analyze_duration probe_size verbose
        @ [''-pass'', ''2'']]
   \<and> build_ffmpeg_command input_file (get_null_device win32) p
         analyze_duration probe_size verbose =
       butlast (build_ffmpeg_command input_file (get_null_device win32) p
                  analyze_duration probe_size verbose) @ [get_null_device win32]"
proof
  show "build_multipass_commands win32 input_file output_file p analyze_duration probe_size verbose =
     [butlast (build_ffmpeg_command input_file (get_null_device win32) p
                 analyze_duration probe_size verbose)
        @ [''-pass'', ''1'', ''-f'', ''null'', get_null_device win32],
      build_ffmpeg_command input_file output_file p analyze_duration probe_size verbose
        @ [''-pass'', ''2'']]"
    by (simp add: build_multipass_commands_def push_back_def pop_back_def Let_def)
next
  obtain body where b: "\<And>out. build_ffmpeg_command input_file out p
      analyze_duration probe_size verbose = body @ [out]"
    using build_ffmpeg_command_snoc by blast
  show "build_ffmpeg_command input_file (get_null_device win32) p
         analyze_duration probe_size verbose =
       butlast (build_ffmpeg_command input_file (get_null_device win32) p
                  analyze_duration probe_size verbose) @ [get_null_device win32]"
    by (simp add: b)
qed

text \<open>
  C2. The invocations built for a file are the two-invocation multipass form exactly when
  the multipass flag is set and the quality fragment does not contain \<open>-crf\<close>; when the
  quality fragment contains \<open>-crf\<close> (constant quality), exactly one invocation is built,
  the single-pass one, whatever the multipass flag says.
\<close>

theorem multipass_effective_iff:
  fixes verbose :: bool
  shows "((ffmpeg_cmds win32 input_file output_file p analyze_duration probe_size verbose =
      build_multipass_commands win32 input_file output_file p analyze_duration probe_size verbose
    \<and> length (ffmpeg_cmds win32 input_file output_file p analyze_duration probe_size verbose) = 2)
    = (multipass p \<and> find_str (quality p) ''-crf'' = None))
   \<and> (find_str (quality p) ''-crf'' \<noteq> None \<longrightarrow>
        ffmpeg_cmds win32 input_file output_file p analyze_duration probe_size verbose =
          [build_ffmpeg_command input_file output_file p analyze_duration probe_size verbose])"
  using length_build_multipass_commands [of win32 input_file output_file p
      analyze_duration probe_size verbose]
  by (auto simp: ffmpeg_cmds_def is_multipass_def)

theorem multipass_effective_iff_witness:
  "find_str (quality p_crf) ''-crf'' \<noteq> None \<and> multipass p_crf
   \<and> ffmpeg_cmds False ''in.mp4'' ''out.mkv'' p_crf 100000000 100000000 True =
       [build_ffmpeg_command ''in.mp4'' ''out.mkv'' p_crf 100000000 100000000 True]
   \<and> length (ffmpeg_cmds False ''in.mp4'' ''out.mkv'' p_crf 100000000 100000000 True) = 1"
proof -
  have h: "find_str (quality p_crf) ''-crf'' \<noteq> None"
    by (simp add: p_crf_def find_str_def)
  have m: "multipass p_crf"
    by (simp add: p_crf_def)
  show ?thesis
    using h m multipass_effective_iff [of False "''in.mp4''" "''out.mkv''" p_crf
        100000000 100000000 True]
    by simp
qed

lemma drop_length_add: "drop (length xs + k) (xs @ ys) = drop k ys"
  by simp

text \<open>
  C10. \<^verbatim>\<open>build_ffmpeg_command\<close> always emits \<open>-preset\<close> followed by the speed-preset
  value, right after the quality fragment, also when that value is the empty string.
  The framerate flag is left out when the framerate is empty or \<open>auto\<close> (the resolution
  flag then follows the preset value directly) and the profile flag is left out when the
  profile is empty or \<open>auto\<close> (the audio fragments are then followed directly by the
  quiet-mode flags, the map flag and the output path).
\<close>

theorem preset_flag_always_emitted:
  fixes verbose :: bool
  shows "let c = build_ffmpeg_command input_file output_file p analyze_duration probe_size verbose;
       n = 9 + length (split_string (quality p) space);
       r = (if framerate p = [] \<or> framerate p = ''auto'' then 0 else 2);
       a = length (split_string (acodec p) space)
           + length (split_string (audio_channels p) space);
       tail = (if verbose then [] else [''-v'', ''error'', ''-stats''])
              @ [''-map'', ''0'', output_file]
   in take 2 (drop n c) = [''-preset'', preset p]
      \<and> (framerate p = [] \<or> framerate p = ''auto''
           \<longrightarrow> take 2 (drop (n + 2) c) = [''-s'', resolution p])
      \<and> (framerate p \<noteq> [] \<and> framerate p \<noteq> ''auto''
           \<longrightarrow> take 4 (drop (n + 2) c) = [''-r'', framerate p, ''-s'', resolution p])
      \<and> (profile p = [] \<or> profile p = ''auto''
           \<longrightarrow> drop (n + 2 + r + 2 + a) c = tail)
      \<and> (profile p \<noteq> [] \<and> profile p \<noteq> ''auto''
           \<longrightarrow> drop (n + 2 + r + 2 + a) c = [''-profile:v'', profile p] @ tail)"
proof -
  define c where "c = build_ffmpeg_command input_file output_file p analyze_duration probe_size verbose"
  define A where "A = [''ffmpeg'', ''-analyzeduration'', to_string analyze_duration,
      ''-probesize'', to_string probe_size, ''-i'', input_file, ''-c:v'', vcodec p]
      @ split_string (quality p) space"
  define R where "R = (if framerate p \<noteq> [] \<and> framerate p \<noteq> ''auto''
      then [''-r'', framerate p] else [])"
  define AU where "AU = split_string (acodec p) space
      @ (if audio_channels p \<noteq> [] then split_string (audio_channels p) space else [])"
  define PF where "PF = (if profile p \<noteq> [] \<and> profile p \<noteq> ''auto''
      then [''-profile:v'', profile p] else [])"
  define TL where "TL = (if verbose then [] else [''-v'', ''error'', ''-stats''])
      @ [''-map'', ''0'', output_file]"
  define n where "n = 9 + length (split_string (quality p) space)"
  define r :: nat where "r = (if framerate p = [] \<or> framerate p = ''auto'' then 0 else 2)"
  define a where "a = length (split_string (acodec p) space)
           + length (split_string (audio_channels p) space)"
  have c: "c = A @ [''-preset'', preset p] @ R @ [''-s'', resolution p] @ AU @ PF @ TL"
    by (simp add: c_def build_ffmpeg_command_unfold A_def R_def AU_def PF_def TL_def)
  have lA: "n = length A"
    by (simp add: A_def n_def)
  have lR: "r = length R"
    by (simp add: R_def r_def)
  have lAU: "a = length AU"
    by (simp add: AU_def a_def split_string_Nil)
  have d0: "drop n c = [''-preset'', preset p] @ R @ [''-s'', resolution p] @ AU @ PF @ TL"
    by (simp add: c lA)
  have d2: "drop (n + 2) c = R @ [''-s'', resolution p] @ AU @ PF @ TL"
    unfolding c lA drop_length_add by simp
  define X where "X = A @ [''-preset'', preset p] @ R @ [''-s'', resolution p] @ AU"
  have cX: "c = X @ (PF @ TL)"
    by (simp add: c X_def)
  have lX: "n + 2 + r + 2 + a = length X"
    by (simp add: X_def lA lR lAU)
  have d3: "drop (n + 2 + r + 2 + a) c = PF @ TL"
    unfolding lX cX by simp
  have "take 2 (drop n c) = [''-preset'', preset p]
      \<and> (framerate p = [] \<or> framerate p = ''auto''
           \<longrightarrow> take 2 (drop (n + 2) c) = [''-s'', resolution p])
      \<and> (framerate p \<noteq> [] \<and> framerate p \<noteq> ''auto''
           \<longrightarrow> take 4 (drop (n + 2) c) = [''-r'', framerate p, ''-s'', resolution p])
      \<and> (profile p = [] \<or> profile p = ''auto''
           \<longrightarrow> drop (n + 2 + r + 2 + a) c = TL)
      \<and> (profile p \<noteq> [] \<and> profile p \<noteq> ''auto''
           \<longrightarrow> drop (n + 2 + r + 2 + a) c = [''-profile:v'', profile p] @ TL)"
    unfolding d0 d2 d3 by (auto simp: R_def PF_def)
  then show ?thesis
    unfolding Let_def c_def n_def r_def a_def TL_def .
qed

theorem preset_flag_always_emitted_witness:
  "build_ffmpeg_command ''in.mp4'' ''out.mkv'' p_empty_preset 100000000 100000000 False =
     [''ffmpeg'', ''-analyzeduration'', ''100000000'', ''-probesize'', ''100000000'',
      ''-i'', ''in.mp4'', ''-c:v'', ''libx264'', ''-b:v'', ''1500k'', ''-preset'', [],
      ''-s'', ''0x0'', ''-c:a'', ''copy'', ''-v'', ''error'', ''-stats'', ''-map'', ''0'', ''out.mkv'']
   \<and> take 2 (drop 11 (build_ffmpeg_command ''in.mp4'' ''out.mkv'' p_empty_preset
                          100000000 100000000 False))
       = [''-preset'', []]
   \<and> take 2 (drop 13 (build_ffmpeg_command ''in.mp4'' ''out.mkv'' p_empty_preset
                          100000000 100000000 False))
       = [''-s'', ''0x0'']
   \<and> drop 17 (build_ffmpeg_command ''in.mp4'' ''out.mkv'' p_empty_preset
                 100000000 100000000 False)
       = [''-v'', ''error'', ''-stats'', ''-map'', ''0'', ''out.mkv'']"
proof -
  have q: "split_string (quality p_empty_preset) space = [''-b:v'', ''1500k'']"
    by (simp add: p_empty_preset_def split_string_def split_loop.simps space_def)
  have a: "split_string (acodec p_empty_preset) space = [''-c:a'', ''copy'']"
    by (simp add: p_empty_preset_def split_string_def split_loop.simps space_def)
  have c: "split_string (audio_channels p_empty_preset) space = []"
    by (simp add: p_empty_preset_def split_string_def split_loop.simps space_def)
  have f: "preset p_empty_preset = []" "framerate p_empty_preset = ''auto''"
    "profile p_empty_preset = []" "resolution p_empty_preset = ''0x0''"
    by (simp_all add: p_empty_preset_def)
  have whole: "build_ffmpeg_command ''in.mp4'' ''out.mkv'' p_empty_preset 100000000 100000000 False =
     [''ffmpeg'', ''-analyzeduration'', ''100000000'', ''-probesize'', ''100000000'',
      ''-i'', ''in.mp4'', ''-c:v'', ''libx264'', ''-b:v'', ''1500k'', ''-preset'', [],
      ''-s'', ''0x0'', ''-c:a'', ''copy'', ''-v'', ''error'', ''-stats'', ''-map'', ''0'', ''out.mkv'']"
    by (simp add: build_ffmpeg_command_unfold q a c f to_string_eval)
       (simp add: p_empty_preset_def)
  show ?thesis
    using preset_flag_always_emitted [of "''in.mp4''" "''out.mkv''" p_empty_preset
        100000000 100000000 False]
    by (simp add: Let_def q a c f whole)
qed

section \<open>Properties of the extractor and the translator\<close>

lemma bind_exn_Inr: "bind_exn m f = Inr y \<longleftrightarrow> (\<exists>x. m = Inr x \<and> f x = Inr y)"
  by (cases m) (simp_all add: bind_exn_def)

text \<open>A successful extraction read every field of the result with the accessor of the source.\<close>

lemma extract_preset_settings_Inr:
  assumes "extract_preset_settings doc = Inr s"
  shows "\<exists>preset_list preset audio_list audio_settings.
     value_json doc ''PresetList'' (JArray []) = Inr preset_list
     \<and> index0 preset_list = Inr preset
     \<and> value_json preset ''AudioList'' (JArray []) = Inr audio_list
     \<and> (if 0 < json_size audio_list then index0 audio_list else Inr (JObject []))
         = Inr audio_settings
     \<and> value_string preset ''PresetName'' [] = Inr (Settings.preset_name s)
     \<and> value_string preset ''VideoEncoder'' [] = Inr (video_encoder s)
     \<and> int_field preset ''VideoAvgBitrate'' = Inr (video_bitrate s)
     \<and> value_string preset ''VideoPreset'' [] = Inr (video_preset s)
     \<and> value_string preset ''VideoProfile'' [] = Inr (video_profile s)
     \<and> string_or_int_field preset ''VideoFramerate'' = Inr (video_framerate s)
     \<and> double_field preset ''VideoQualitySlider'' = Inr (video_quality s)
     \<and> string_or_int_field preset ''VideoQualityType'' = Inr (video_quality_type s)
     \<and> value_bool preset ''VideoMultiPass'' False = Inr (video_multipass s)
     \<and> int_field preset ''PictureWidth'' = Inr (picture_width s)
     \<and> int_field preset ''PictureHeight'' = Inr (picture_height s)
     \<and> value_string audio_settings ''AudioEncoder'' [] = Inr (audio_encoder s)
     \<and> int_field audio_settings ''AudioBitrate'' = Inr (audio_bitrate s)
     \<and> value_string audio_settings ''AudioMixdown'' [] = Inr (audio_mixdown s)
     \<and> value_string preset ''FileFormat'' [] = Inr (container s)"
  using assms unfolding extract_preset_settings_def bind_exn_Inr
  apply (elim exE conjE)
  apply (simp only: sum.inject)
  apply (drule sym [of _ s])
  apply (simp (no_asm_simp))
  done

lemma extract_doc_x265: "extract_preset_settings doc_x265 = Inr settings_x265"
  by (simp add: extract_preset_settings_def doc_x265_def settings_x265_def json_eval
      to_string_eval)

lemma command_doc_x265:
  "build_ffmpeg_command ''clip.mp4'' ''converted/clip.mkv''
     (convert_to_ffmpeg_params settings_x265) 100000000 100000000 False =
   [''ffmpeg'', ''-analyzeduration'', ''100000000'', ''-probesize'', ''100000000'',
    ''-i'', ''clip.mp4'', ''-c:v'', ''libx265'', ''-crf'', ''20.000000'', ''-preset'', [],
    ''-s'', ''0x0'', ''-c:a'', ''aac'', ''-b:a'', ''0k'', ''-v'', ''error'', ''-stats'',
    ''-map'', ''0'', ''converted/clip.mkv'']"
  by (simp add: build_ffmpeg_command_unfold convert_to_ffmpeg_params_def settings_x265_def
      rfind0_def split_eval to_string_eval)

text \<open>
  C1, as stated, fails: for the preset naming encoder \<open>x265\<close>, quality mode \<open>2\<close>, quality
  slider 20 and container \<open>av_mkv\<close>, the extractor prints the slider as a
  \<^verbatim>\<open>double\<close>, so the argument after \<open>-crf\<close> is \<open>20.000000\<close> and the argument
  \<open>20\<close> occurs nowhere in the command.
\<close>

theorem x265_crf_20_counterexample:
  "extract_preset_settings doc_x265 = Inr settings_x265
   \<and> build_ffmpeg_command ''clip.mp4'' ''converted/clip.mkv''
        (convert_to_ffmpeg_params settings_x265) 100000000 100000000 False =
      [''ffmpeg'', ''-analyzeduration'', ''100000000'', ''-probesize'', ''100000000'',
       ''-i'', ''clip.mp4'', ''-c:v'', ''libx265'', ''-crf'', ''20.000000'', ''-preset'', [],
       ''-s'', ''0x0'', ''-c:a'', ''aac'', ''-b:a'', ''0k'', ''-v'', ''error'', ''-stats'',
       ''-map'', ''0'', ''converted/clip.mkv'']
   \<and> ''20'' \<notin> set (build_ffmpeg_command ''clip.mp4'' ''converted/clip.mkv''
        (convert_to_ffmpeg_params settings_x265) 100000000 100000000 False)"
  by (simp add: extract_doc_x265 command_doc_x265)

text \<open>
  C1, amended. For every preset document whose first preset names video encoder
  \<open>x265\<close>, quality mode \<open>2\<close> (as a string or as a number), quality slider 20 (as an
  integer or as a floating-point number) and container \<open>av_mkv\<close>, and from which the
  extraction succeeds, the command built from the translated settings has, right after
  the input path, the arguments \<open>-c:v libx265 -crf 20.000000\<close>, and the output format is
  \<open>mkv\<close>.
\<close>

theorem x265_crf_pipeline:
  fixes verbose :: bool
  assumes "extract_preset_settings doc = Inr s"
    and "value_json doc ''PresetList'' (JArray []) = Inr preset_list"
    and "index0 preset_list = Inr (JObject kvs)"
    and "map_of kvs ''VideoEncoder'' = Some (JString ''x265'')"
    and "map_of kvs ''VideoQualityType'' = Some quality_type"
    and "quality_type = JString ''2'' \<or> quality_type = JInt 2"
    and "map_of kvs ''VideoQualitySlider'' = Some slider"
    and "slider = JInt 20 \<or> slider = JFloat (Dbl False 20 0)"
    and "map_of kvs ''FileFormat'' = Some (JString ''av_mkv'')"
  shows "take 4 (drop 7 (build_ffmpeg_command input_file output_file
            (convert_to_ffmpeg_params s) analyze_duration probe_size verbose))
         = [''-c:v'', ''libx265'', ''-crf'', ''20.000000'']
       \<and> format (convert_to_ffmpeg_params s) = ''mkv''"
proof -
  from extract_preset_settings_Inr [OF assms(1)] assms(2,3)
  have enc: "value_string (JObject kvs) ''VideoEncoder'' [] = Inr (video_encoder s)"
    and qt: "string_or_int_field (JObject kvs) ''VideoQualityType'' = Inr (video_quality_type s)"
    and sl: "double_field (JObject kvs) ''VideoQualitySlider'' = Inr (video_quality s)"
    and ff: "value_string (JObject kvs) ''FileFormat'' [] = Inr (container s)"
    by auto
  have e: "video_encoder s = ''x265''"
    using enc assms(4) by (simp add: value_string_def get_string_def)
  have t: "video_quality_type s = ''2''"
    using qt assms(5,6) by (auto simp: json_eval to_string_eval)
  have q: "video_quality s = ''20.000000''"
    using sl assms(7,8) by (auto simp: json_eval to_string_eval)
  have c: "container s = ''av_mkv''"
    using ff assms(9) by (simp add: value_string_def get_string_def)
  have v: "vcodec (convert_to_ffmpeg_params s) = ''libx265''"
    by (simp add: convert_to_ffmpeg_params_def e)
  have "quality (convert_to_ffmpeg_params s) = ''-crf 20.000000''"
    by (simp add: convert_to_ffmpeg_params_def t q)
  then have sp: "split_string (quality (convert_to_ffmpeg_params s)) space
      = [''-crf'', ''20.000000'']"
    by (simp add: split_eval)
  have f: "format (convert_to_ffmpeg_params s) = ''mkv''"
    by (simp add: convert_to_ffmpeg_params_def c)
  show ?thesis
    by (simp add: build_ffmpeg_command_unfold v sp f)
qed

theorem x265_crf_pipeline_witness:
  "extract_preset_settings doc_x265 = Inr settings_x265
   \<and> take 4 (drop 7 (build_ffmpeg_command ''clip.mp4'' ''converted/clip.mkv''
         (convert_to_ffmpeg_params settings_x265) 100000000 100000000 False))
       = [''-c:v'', ''libx265'', ''-crf'', ''20.000000'']
   \<and> format (convert_to_ffmpeg_params settings_x265) = ''mkv''"
proof -
  have 2: "value_json doc_x265 ''PresetList'' (JArray []) = Inr (JArray [JObject
     [(''VideoEncoder'', JString ''x265''),
      (''VideoQualityType'', JString ''2''),
      (''VideoQualitySlider'', JInt 20),
      (''FileFormat'', JString ''av_mkv'')]])"
    by (simp add: doc_x265_def value_json_def)
  have 3: "index0 (JArray [JObject
     [(''VideoEncoder'', JString ''x265''),
      (''VideoQualityType'', JString ''2''),
      (''VideoQualitySlider'', JInt 20),
      (''FileFormat'', JString ''av_mkv'')]]) = Inr (JObject
     [(''VideoEncoder'', JString ''x265''),
      (''VideoQualityType'', JString ''2''),
      (''VideoQualitySlider'', JInt 20),
      (''FileFormat'', JString ''av_mkv'')])"
    by (simp add: index0_def)
  show ?thesis
    using x265_crf_pipeline [OF extract_doc_x265 2 3, of "JString ''2''" "JInt 20"
        "''clip.mp4''" "''converted/clip.mkv''" 100000000 100000000 False]
    by (simp add: extract_doc_x265)
qed

text \<open>
  C8 fails on the code at a numeric string. The extractor reads the video bitrate, the
  picture width, the picture height and the audio bitrate with \<^verbatim>\<open>get<int>()\<close>, which
  throws \<^verbatim>\<open>type_error\<close> 302 on a string; nothing catches it. (The framerate and the
  quality mode, read a few lines further, do test \<^verbatim>\<open>is_string()\<close> first.)
\<close>

theorem extract_numeric_string_throws:
  "extract_preset_settings doc_string_video_bitrate = Inl (Type_error 302)
   \<and> extract_preset_settings doc_string_width = Inl (Type_error 302)
   \<and> extract_preset_settings doc_string_height = Inl (Type_error 302)
   \<and> extract_preset_settings doc_string_audio_bitrate = Inl (Type_error 302)"
  by (simp add: extract_preset_settings_def doc_string_video_bitrate_def doc_string_width_def
      doc_string_height_def doc_string_audio_bitrate_def json_eval to_string_eval)

text \<open>
  The other half of C8 holds: a native number in these fields is read and printed in
  decimal, whatever else the preset holds, as long as the extraction succeeds; and it
  does succeed on a preset that holds nothing but such numbers.
\<close>

lemma int_field_string:
  "map_of kvs key = Some (JString v) \<Longrightarrow> int_field (JObject kvs) key = Inl (Type_error 302)"
  by (simp add: int_field_def contains_def at_key_def get_int_def bind_exn_def)

lemma int_field_native:
  "map_of kvs key = Some (JInt n) \<Longrightarrow>
   int_field (JObject kvs) key = Inr (to_string (int_of_int64 n))"
  by (simp add: int_field_def contains_def at_key_def get_int_def bind_exn_def)

lemma int_field_absent:
  "map_of kvs key = None \<Longrightarrow> int_field (JObject kvs) key = Inr ''0''"
  by (simp add: int_field_def contains_def)

lemma extract_native_numbers:
  "extract_preset_settings doc_native_numbers =
     Inr \<lparr> Settings.preset_name = [], video_encoder = [], video_bitrate = ''1500'',
           video_preset = [], video_profile = [], video_framerate = [],
           video_quality = ''0'', video_quality_type = [], video_multipass = False,
           picture_width = ''1920'', picture_height = ''1080'', audio_encoder = [],
           audio_bitrate = ''160'', audio_mixdown = [], container = [] \<rparr>"
  by (simp add: extract_preset_settings_def doc_native_numbers_def json_eval to_string_eval)

section \<open>The output directory\<close>

lemma main_output_dir_first_occurrence:
  fixes output_dir :: string
  shows "find_str output_dir ''converted/converted'' = Some pos \<Longrightarrow>
   main_output_dir output_dir =
     take pos output_dir @ ''converted'' @ drop (pos + length ''converted/converted'') output_dir"
  by (simp add: main_output_dir_def string_replace_def del: length_Cons list.size)

lemma main_output_dir_unchanged:
  fixes output_dir :: string
  shows "find_str output_dir ''converted/converted'' = None \<Longrightarrow> main_output_dir output_dir = output_dir"
  by (simp add: main_output_dir_def)

lemma main_output_dir_double: "main_output_dir ''/media/converted/converted'' = ''/media/converted''"
  by (simp add: main_output_dir_def find_str_def string_replace_def)

text \<open>
  C9 fails on the code where the doubled segment occurs more than once. Only the first
  occurrence of \<open>converted/converted\<close> is replaced, and it is replaced once: from
  \<open>/media/converted/converted/converted\<close> the result is \<open>/media/converted/converted\<close>,
  which still holds the doubled segment (at position 7), and that is the directory the
  files are then written to.
\<close>

theorem triple_converted_stays_doubled:
  "main_output_dir ''/media/converted/converted/converted'' = ''/media/converted/converted''
   \<and> find_str (main_output_dir ''/media/converted/converted/converted'') ''converted/converted''
       = Some 7"
  by (simp add: main_output_dir_def find_str_def string_replace_def)

section \<open>Rendering and reading back\<close>

lemma tokenize_from_quoted:
  "dquote \<notin> set a \<Longrightarrow> tokenize_from True token (a @ rest) = tokenize_from True (token @ a) rest"
  by (induction a arbitrary: token) auto

lemma tokenize_from_plain:
  "dquote \<notin> set a \<Longrightarrow> space \<notin> set a \<Longrightarrow>
   tokenize_from False token (a @ rest) = tokenize_from False (token @ a) rest"
  by (induction a arbitrary: token) auto

lemma tokenize_from_escape:
  assumes "dquote \<notin> set a"
  shows "tokenize_from False [] (escape_string a @ rest) = tokenize_from False a rest"
proof (cases "space \<in> set a")
  case True
  then have "tokenize_from False [] (escape_string a @ rest)
      = tokenize_from True [] (a @ dquote # rest)"
    by (simp add: escape_string_def)
  also have "\<dots> = tokenize_from True a (dquote # rest)"
    using tokenize_from_quoted [OF assms, of "[]"] by simp
  finally show ?thesis by simp
next
  case False
  then show ?thesis
    using tokenize_from_plain [OF assms, of "[]" rest] by (simp add: escape_string_def)
qed

lemma space_not_dquote: "space \<noteq> dquote"
  by (simp add: space_def dquote_def)

lemma tokenize_render:
  "\<forall>a \<in> set cmd. a \<noteq> [] \<and> dquote \<notin> set a \<Longrightarrow> tokenize (render cmd) = cmd"
proof (induction cmd rule: induct_list012)
  case 1
  then show ?case by (simp add: tokenize_def render_def)
next
  case (2 x)
  then show ?case
    using tokenize_from_escape [of x "[]"] by (simp add: tokenize_def render_def)
next
  case (3 x y zs)
  have "tokenize (render (x # y # zs))
      = tokenize_from False [] (escape_string x @ space # render (y # zs))"
    by (simp add: tokenize_def render_def space_def)
  also have "\<dots> = tokenize_from False x (space # render (y # zs))"
    using 3(3) by (simp add: tokenize_from_escape)
  also have "\<dots> = x # tokenize (render (y # zs))"
    using 3(3) space_not_dquote by (simp add: tokenize_def)
  finally show ?case
    using 3 by simp
qed

lemma cmd_a: "build_ffmpeg_command ''a b'' ''o.mkv'' p_quote_a 1 1 True =
  [''ffmpeg'', ''-analyzeduration'', ''1'', ''-probesize'', ''1'', ''-i'', ''a b'', ''-c:v'',
   [dquote] @ ''x'' @ [dquote], ''-c:v'', ''v'', ''q'', ''-preset'', ''fast'', ''-s'', ''0x0'',
   ''-c:a'', ''copy'', ''-map'', ''0'', ''o.mkv'']"
  by (simp add: build_ffmpeg_command_unfold p_quote_a_def split_eval to_string_eval)

lemma cmd_b: "build_ffmpeg_command input_quote_b ''o.mkv'' p_quote_b 1 1 True =
  [''ffmpeg'', ''-analyzeduration'', ''1'', ''-probesize'', ''1'', ''-i'', input_quote_b, ''-c:v'',
   ''v'', ''q'', ''-preset'', ''fast'', ''-s'', ''0x0'',
   ''-c:a'', ''copy'', ''-map'', ''0'', ''o.mkv'']"
  by (simp add: build_ffmpeg_command_unfold p_quote_b_def split_eval to_string_eval)

lemma cmd_empty_preset:
  "build_ffmpeg_command ''in.mp4'' ''out.mkv'' p_empty_preset 100000000 100000000 False =
     [''ffmpeg'', ''-analyzeduration'', ''100000000'', ''-probesize'', ''100000000'',
      ''-i'', ''in.mp4'', ''-c:v'', ''libx264'', ''-b:v'', ''1500k'', ''-preset'', [],
      ''-s'', ''0x0'', ''-c:a'', ''copy'', ''-v'', ''error'', ''-stats'', ''-map'', ''0'', ''out.mkv'']"
  by (simp add: build_ffmpeg_command_unfold p_empty_preset_def split_eval to_string_eval)

lemmas render_eval = render_def escape_string_def tokenize_def space_def dquote_def

text \<open>
  C6, as stated, fails. An empty argument (the speed preset of a preset that names none)
  is rendered as nothing between two spaces and is lost when the string is read back; and
  since embedded double quotes are not escaped, two different commands can be rendered to
  the same string, so that no parser at all could return both.
\<close>

theorem render_roundtrip_counterexample:
  "tokenize (render (build_ffmpeg_command ''in.mp4'' ''out.mkv'' p_empty_preset
       100000000 100000000 False))
     \<noteq> build_ffmpeg_command ''in.mp4'' ''out.mkv'' p_empty_preset 100000000 100000000 False
   \<and> render (build_ffmpeg_command ''a b'' ''o.mkv'' p_quote_a 1 1 True)
       = render (build_ffmpeg_command input_quote_b ''o.mkv'' p_quote_b 1 1 True)
   \<and> build_ffmpeg_command ''a b'' ''o.mkv'' p_quote_a 1 1 True
       \<noteq> build_ffmpeg_command input_quote_b ''o.mkv'' p_quote_b 1 1 True"
  unfolding cmd_a cmd_b cmd_empty_preset
  by (simp add: render_eval input_quote_b_def)

text \<open>
  C6, amended. For every argument list produced by \<^verbatim>\<open>build_ffmpeg_command\<close> in which
  no argument is empty and no argument contains a double quote, rendering it (quoting
  the arguments that contain a space, joining with spaces) and reading the string back
  token by token reproduces the argument list.
\<close>

theorem render_tokenize_roundtrip:
  fixes verbose :: bool
  assumes "\<forall>a \<in> set (build_ffmpeg_command input_file output_file p
              analyze_duration probe_size verbose). a \<noteq> [] \<and> dquote \<notin> set a"
  shows "tokenize (render (build_ffmpeg_command input_file output_file p
              analyze_duration probe_size verbose))
         = build_ffmpeg_command input_file output_file p analyze_duration probe_size verbose"
  using assms by (rule tokenize_render)

lemma cmd_crf:
  "build_ffmpeg_command ''my clip.mp4'' ''out dir/my clip.mkv'' p_crf 100000000 100000000 False =
     [''ffmpeg'', ''-analyzeduration'', ''100000000'', ''-probesize'', ''100000000'',
      ''-i'', ''my clip.mp4'', ''-c:v'', ''libx265'', ''-crf'', ''22.000000'', ''-preset'', ''slow'',
      ''-r'', ''30'', ''-s'', ''1920x1080'', ''-c:a'', ''copy'', ''-ac'', ''2'',
      ''-profile:v'', ''main'', ''-v'', ''error'', ''-stats'', ''-map'', ''0'',
      ''out dir/my clip.mkv'']"
  by (simp add: build_ffmpeg_command_unfold p_crf_def split_eval to_string_eval)

theorem render_tokenize_roundtrip_witness:
  "render (build_ffmpeg_command ''my clip.mp4'' ''out dir/my clip.mkv'' p_crf
       100000000 100000000 False)
     = ''ffmpeg -analyzeduration 100000000 -probesize 100000000 -i '' @ [dquote]
       @ ''my clip.mp4'' @ [dquote] @ '' -c:v libx265 -crf 22.000000 -preset slow -r 30''
       @ '' -s 1920x1080 -c:a copy -ac 2 -profile:v main -v error -stats -map 0 ''
       @ [dquote] @ ''out dir/my clip.mkv'' @ [dquote]
   \<and> tokenize (render (build_ffmpeg_command ''my clip.mp4'' ''out dir/my clip.mkv'' p_crf
       100000000 100000000 False))
     = build_ffmpeg_command ''my clip.mp4'' ''out dir/my clip.mkv'' p_crf
       100000000 100000000 False"
proof -
  have h: "\<forall>a \<in> set (build_ffmpeg_command ''my clip.mp4'' ''out dir/my clip.mkv'' p_crf
              100000000 100000000 False). a \<noteq> [] \<and> dquote \<notin> set a"
    unfolding cmd_crf by (simp add: dquote_def)
  have r: "render (build_ffmpeg_command ''my clip.mp4'' ''out dir/my clip.mkv'' p_crf
       100000000 100000000 False)
     = ''ffmpeg -analyzeduration 100000000 -probesize 100000000 -i '' @ [dquote]
       @ ''my clip.mp4'' @ [dquote] @ '' -c:v libx265 -crf 22.000000 -preset slow -r 30''
       @ '' -s 1920x1080 -c:a copy -ac 2 -profile:v main -v error -stats -map 0 ''
       @ [dquote] @ ''out dir/my clip.mkv'' @ [dquote]"
    unfolding cmd_crf by (simp add: render_def escape_string_def space_def dquote_def)
  show ?thesis
    using render_tokenize_roundtrip [OF h] r by simp
qed

section \<open>Properties of the orchestrator\<close>

lemma dispatched_append: "dispatched (t @ t') = dispatched t @ dispatched t'"
  by (induction t rule: dispatched.induct) simp_all

lemma quietD: "quiet m \<Longrightarrow> m w = (r, w', t) \<Longrightarrow> dispatched t = []"
  unfolding quiet_def by (metis snd_conv)

lemma quiet_return: "quiet (io_return x)"
  by (simp add: quiet_def io_return_def)

lemma quiet_cout: "quiet (cout line)"
  by (simp add: quiet_def cout_def)

lemma quiet_query: "quiet (io_query q)"
  by (simp add: quiet_def io_query_def split: sum.splits)

lemma quiet_action: "quiet (io_action a)"
  by (simp add: quiet_def io_action_def split: sum.splits prod.splits)

lemma quiet_open: "quiet (io_open os file)"
  by (simp add: quiet_def io_open_def split: prod.splits)

lemma quiet_bind: "quiet m \<Longrightarrow> (\<And>x. quiet (f x)) \<Longrightarrow> quiet (io_bind m f)"
  unfolding quiet_def io_bind_def
  by (auto simp: dispatched_append split: prod.splits sum.splits) (metis snd_conv)+

lemma quiet_catch: "quiet m \<Longrightarrow> (\<And>what. quiet (h what)) \<Longrightarrow> quiet (io_catch m h)"
  unfolding quiet_def io_catch_def
  by (auto simp: dispatched_append split: prod.splits sum.splits exn.splits) (metis snd_conv)+

lemma quiet_if: "quiet a \<Longrightarrow> quiet b \<Longrightarrow> quiet (if c then a else b)"
  by simp

lemmas quiet_intros = quiet_return quiet_cout quiet_query quiet_action quiet_open
  quiet_bind quiet_catch quiet_if

lemma quiet_check_file_access: "quiet (check_file_access os file_path)"
  unfolding check_file_access_def Let_def by (intro quiet_intros)

lemma quiet_ensure_output_subdir: "quiet (ensure_output_subdir os output_subdir dry)"
  unfolding ensure_output_subdir_def by (intro quiet_intros)

lemma quiet_rename_to_m4v: "quiet (rename_to_m4v os file_path dry)"
  unfolding rename_to_m4v_def Let_def by (intro quiet_intros)

lemma quiet_should_ignore_file: "quiet (should_ignore_file os file flag)"
  unfolding should_ignore_file_def Let_def by (intro quiet_intros)

lemma io_bind_cases:
  assumes "io_bind m f w = (r, w', t)"
  obtains (throw) e where "m w = (Inl e, w', t)" and "r = Inl e"
  | (ok) x w1 t1 t2 where "m w = (Inr x, w1, t1)" and "f x w1 = (r, w', t2)" and "t = t1 @ t2"
  using assms unfolding io_bind_def
  by (auto split: prod.splits sum.splits)

lemma io_catch_cases:
  assumes "io_catch m h w = (r, w', t)"
  obtains (pass) "m w = (r, w', t)"
  | (caught) e what w1 t1 t2 where "m w = (Inl e, w1, t1)" and "h what w1 = (r, w', t2)"
      and "t = t1 @ t2"
  using assms unfolding io_catch_def
  by (auto split: prod.splits sum.splits exn.splits)

lemma execute_command_run:
  assumes "execute_command os cmd verb w = (r, w', t)"
  shows "\<exists>status. r = Inr status \<and> dispatched t = [(join_string cmd '' '', status)]
           \<and> os_system os (join_string cmd '' '') w = (status, w')"
  using assms
  by (auto simp: execute_command_def io_bind_def cout_def io_return_def io_system_def Let_def
      split: prod.splits if_splits)

lemma run_passes_two:
  assumes "run_passes os verb i n [c1, c2] w = (r, w', t)"
  shows "(\<exists>rc. rc \<noteq> 0 \<and> r = Inr rc \<and> dispatched t = [(join_string c1 '' '', rc)])
       \<or> (\<exists>rc2. r = Inr rc2
             \<and> dispatched t = [(join_string c1 '' '', 0), (join_string c2 '' '', rc2)])"
proof -
  from assms have "io_bind (cout (''Running pass '' @ to_string_nat (i + 1) @ '' of ''
        @ to_string_nat n @ ''...'')) (\<lambda>_.
     io_bind (execute_command os c1 verb) (\<lambda>result_code.
     if result_code \<noteq> 0 then io_return result_code
     else run_passes os verb (Suc i) n [c2])) w = (r, w', t)"
    by simp
  then obtain w1 t1 t2 where
    a: "io_bind (execute_command os c1 verb) (\<lambda>result_code.
     if result_code \<noteq> 0 then io_return result_code
     else run_passes os verb (Suc i) n [c2]) w1 = (r, w', t2)"
    and t: "dispatched t = dispatched t2"
    by (cases rule: io_bind_cases) (auto simp: cout_def dispatched_append)
  from a show ?thesis
  proof (cases rule: io_bind_cases)
    case (throw e)
    then show ?thesis
      using execute_command_run by fastforce
  next
    case (ok rc1 w2 t3 t4)
    from execute_command_run [OF ok(1)]
    have d3: "dispatched t3 = [(join_string c1 '' '', rc1)]"
      by simp
    show ?thesis
    proof (cases "rc1 = 0")
      case False
      with ok(2) have "r = Inr rc1" "t4 = []"
        by (simp_all add: io_return_def)
      with False d3 ok(3) t show ?thesis
        by (simp add: dispatched_append)
    next
      case True
      with ok(2) have "io_bind (cout (''Running pass '' @ to_string_nat (Suc i + 1) @ '' of ''
            @ to_string_nat n @ ''...'')) (\<lambda>_.
         io_bind (execute_command os c2 verb) (\<lambda>result_code.
         if result_code \<noteq> 0 then io_return result_code
         else run_passes os verb (Suc (Suc i)) n [])) w2 = (r, w', t4)"
        by simp
      then obtain w3 t5 where
        b: "io_bind (execute_command os c2 verb) (\<lambda>result_code.
         if result_code \<noteq> 0 then io_return result_code
         else run_passes os verb (Suc (Suc i)) n []) w3 = (r, w', t5)"
        and t4: "dispatched t4 = dispatched t5"
        by (cases rule: io_bind_cases) (auto simp: cout_def dispatched_append)
      from b have "\<exists>rc2. r = Inr rc2 \<and> dispatched t5 = [(join_string c2 '' '', rc2)]"
      proof (cases rule: io_bind_cases)
        case (throw e)
        then show ?thesis
          using execute_command_run by fastforce
      next
        case (ok rc2 w4 t6 t7)
        from execute_command_run [OF ok(1)]
        have "dispatched t6 = [(join_string c2 '' '', rc2)]"
          by simp
        moreover from ok(2) have "r = Inr rc2 \<and> t7 = []"
          by (cases "rc2 = 0") (simp_all add: io_return_def)
        ultimately show ?thesis
          using ok(3) by (simp add: dispatched_append)
      qed
      with True d3 ok(3) t t4 show ?thesis
        by (auto simp: dispatched_append)
    qed
  qed
qed

lemma failure_report_run:
  assumes "io_bind (cout l1) (\<lambda>_. io_bind (cout l2) (\<lambda>_.
             io_bind (get_file_info os input_file) (\<lambda>_. io_return (1::int)))) w = (r, w', t)"
  shows "r = Inr 1 \<and> (\<exists>rc'. dispatched t = [(ffprobe_command input_file, rc')])"
  using assms
  by (auto simp: get_file_info_def io_bind_def cout_def io_return_def io_system_def
      split: prod.splits)

lemma success_report_quiet:
  "quiet (io_bind (cout l) (\<lambda>_.
             io_bind (if force then io_bind (rename_to_m4v os output_file dry) (\<lambda>renamed.
                           if \<not> renamed then cout l2 else io_return ())
                      else io_return ()) (\<lambda>_. io_return (0::int))))"
  by (intro quiet_intros quiet_rename_to_m4v)

lemma catch_report_run:
  assumes "io_bind (cout l) (\<lambda>_. io_return (1::int)) w = (r, w', t)"
  shows "r = Inr 1 \<and> dispatched t = []"
  using assms by (auto simp: io_bind_def cout_def io_return_def)

lemma build_multipass_commands_pair:
  "build_multipass_commands win32 i out p ad ps v =
     [build_multipass_commands win32 i out p ad ps v ! 0,
      build_multipass_commands win32 i out p ad ps v ! 1]"
  by (simp add: build_multipass_commands_def push_back_def Let_def)

lemma cout_bind_run:
  assumes "io_bind (cout l) f w = (r, w', t)"
  shows "\<exists>t2. f () w = (r, w', t2) \<and> dispatched t = dispatched t2"
  using assms by (auto simp: io_bind_def cout_def split: prod.splits)

lemma multipass_run_shape:
  assumes "io_bind (run_passes os verb 0 n [c1, c2]) (\<lambda>result_code :: int.
        if result_code = 0
        then io_bind (cout l1) (\<lambda>_.
             io_bind (if force
                      then io_bind (rename_to_m4v os output_file dry) (\<lambda>renamed.
                           if \<not> renamed then cout l2 else io_return ())
                      else io_return ()) (\<lambda>_.
             io_return (0::int)))
        else io_bind (cout (l3 result_code)) (\<lambda>_.
             io_bind (cout l4) (\<lambda>_.
             io_bind (get_file_info os input_file) (\<lambda>_.
             io_return (1::int))))) w = (r, w', t)"
  shows "(\<exists>rc rc'. rc \<noteq> 0 \<and> r = Inr 1
            \<and> dispatched t = [(join_string c1 '' '', rc), (ffprobe_command input_file, rc')])
       \<or> (\<exists>rc2 rc'. rc2 \<noteq> 0 \<and> r = Inr 1
            \<and> dispatched t = [(join_string c1 '' '', 0), (join_string c2 '' '', rc2),
                               (ffprobe_command input_file, rc')])
       \<or> dispatched t = [(join_string c1 '' '', 0), (join_string c2 '' '', 0)]"
  using assms
proof (cases rule: io_bind_cases)
  case (throw e)
  then show ?thesis
    using run_passes_two [of os verb 0 n c1 c2 w "Inl e" w' t] by simp
next
  case (ok rc w1 t1 t2)
  note run = run_passes_two [OF ok(1)]
  show ?thesis
  proof (cases "rc = 0")
    case True
    with ok(2) have "dispatched t2 = []"
      using quietD [OF success_report_quiet] by fastforce
    with True run ok(3) show ?thesis
      by (auto simp: dispatched_append)
  next
    case False
    with ok(2) have "r = Inr 1 \<and> (\<exists>rc'. dispatched t2 = [(ffprobe_command input_file, rc')])"
      using failure_report_run by fastforce
    with False run ok(3) show ?thesis
      by (auto simp: dispatched_append)
  qed
qed

lemma execute_branch_multipass:
  assumes mp: "is_multipass p"
    and run: "execute_branch os win32 input_file output_file p force dry ad ps verb str w
              = (r, w', t)"
  shows "(\<exists>rc rc'. rc \<noteq> 0 \<and> r = Inr 1
            \<and> dispatched t =
                [(join_string (build_multipass_commands win32 input_file output_file p
                                 ad ps verb ! 0) '' '', rc),
                 (ffprobe_command input_file, rc')])
       \<or> (\<exists>rc2 rc'. rc2 \<noteq> 0 \<and> r = Inr 1
            \<and> dispatched t =
                [(join_string (build_multipass_commands win32 input_file output_file p
                                 ad ps verb ! 0) '' '', 0),
                 (join_string (build_multipass_commands win32 input_file output_file p
                                 ad ps verb ! 1) '' '', rc2),
                 (ffprobe_command input_file, rc')])
       \<or> dispatched t =
            [(join_string (build_multipass_commands win32 input_file output_file p
                             ad ps verb ! 0) '' '', 0),
             (join_string (build_multipass_commands win32 input_file output_file p
                             ad ps verb ! 1) '' '', 0)]"
proof -
  define c1 where "c1 = build_multipass_commands win32 input_file output_file p ad ps verb ! 0"
  define c2 where "c2 = build_multipass_commands win32 input_file output_file p ad ps verb ! 1"
  have cmds: "build_multipass_commands win32 input_file output_file p ad ps verb = [c1, c2]"
    unfolding c1_def c2_def by (rule build_multipass_commands_pair)
  define body where "body = io_bind (run_passes os verb 0 (length [c1, c2]) [c1, c2])
       (\<lambda>result_code :: int.
        if result_code = 0
        then io_bind (cout ''Conversion successful'') (\<lambda>_.
             io_bind (if force
                      then io_bind (rename_to_m4v os output_file dry) (\<lambda>renamed.
                           if \<not> renamed then cout ''Warning: Failed to rename file to .m4v''
                           else io_return ())
                      else io_return ()) (\<lambda>_.
             io_return (0::int)))
        else io_bind (cout (''Error: FFmpeg command failed with return code ''
                            @ to_string result_code)) (\<lambda>_.
             io_bind (cout ''Checking input file...'') (\<lambda>_.
             io_bind (get_file_info os input_file) (\<lambda>_.
             io_return (1::int)))))"
  have eb: "execute_branch os win32 input_file output_file p force dry ad ps verb str =
     io_bind (cout (''Processing: '' @ input_file)) (\<lambda>_.
     io_bind (cout (''Output: '' @ quoted output_file)) (\<lambda>_.
     io_bind (cout (''Command: '' @ str)) (\<lambda>_.
     io_catch body
       (\<lambda>what. io_bind (cout (''Error executing command: '' @ what)) (\<lambda>_. io_return (1::int))))))"
    unfolding execute_branch_def body_def by (simp add: mp cmds Let_def del: length_Cons list.size)
  from cout_bind_run [OF run [unfolded eb]] obtain t1 where 1: "io_bind (cout (''Output: '' @ quoted output_file)) (\<lambda>_.
     io_bind (cout (''Command: '' @ str)) (\<lambda>_.
     io_catch body
       (\<lambda>what. io_bind (cout (''Error executing command: '' @ what)) (\<lambda>_. io_return (1::int)))))
       w = (r, w', t1)" and d1: "dispatched t = dispatched t1"
    by blast
  from cout_bind_run [OF 1] obtain t2 where 2: "io_bind (cout (''Command: '' @ str)) (\<lambda>_.
     io_catch body
       (\<lambda>what. io_bind (cout (''Error executing command: '' @ what)) (\<lambda>_. io_return (1::int))))
       w = (r, w', t2)" and d2: "dispatched t1 = dispatched t2"
    by blast
  from cout_bind_run [OF 2] obtain t3 where 3: "io_catch body
       (\<lambda>what. io_bind (cout (''Error executing command: '' @ what)) (\<lambda>_. io_return (1::int)))
       w = (r, w', t3)" and d3: "dispatched t2 = dispatched t3"
    by blast
  have d: "dispatched t = dispatched t3"
    using d1 d2 d3 by simp
  from 3 have "(\<exists>rc rc'. rc \<noteq> 0 \<and> r = Inr 1
            \<and> dispatched t3 = [(join_string c1 '' '', rc), (ffprobe_command input_file, rc')])
       \<or> (\<exists>rc2 rc'. rc2 \<noteq> 0 \<and> r = Inr 1
            \<and> dispatched t3 = [(join_string c1 '' '', 0), (join_string c2 '' '', rc2),
                               (ffprobe_command input_file, rc')])
       \<or> dispatched t3 = [(join_string c1 '' '', 0), (join_string c2 '' '', 0)]"
  proof (cases rule: io_catch_cases)
    case pass
    then show ?thesis
      unfolding body_def by (rule multipass_run_shape)
  next
    case (caught e what w1 t4 t5)
    from caught(1) have "dispatched t4 = [(join_string c1 '' '', 0), (join_string c2 '' '', 0)]"
      unfolding body_def using multipass_run_shape by fastforce
    moreover from caught(2) have "dispatched t5 = []"
      using catch_report_run by fastforce
    ultimately show ?thesis
      using caught(3) by (simp add: dispatched_append)
  qed
  then show ?thesis
    unfolding d c1_def c2_def .
qed

lemma query_bind_run: "q w = Inr x \<Longrightarrow> io_bind (io_query q) f w = f x w"
  by (cases "f x w") (simp add: io_bind_def io_query_def)

lemma return_run: "io_return x w = (r, w', t) \<Longrightarrow> r = Inr x \<and> t = []"
  by (auto simp: io_return_def)

lemma join_string_snoc:
  "xs \<noteq> [] \<Longrightarrow> join_string (xs @ [x]) d = join_string xs d @ d @ x"
  by (induction xs d rule: join_string.induct) simp_all

lemma last_join_string_snoc:
  "xs \<noteq> [] \<Longrightarrow> x \<noteq> [] \<Longrightarrow> last (join_string (xs @ [x]) d) = last x"
  by (simp add: join_string_snoc)

lemma pass_commands_differ:
  "join_string (build_multipass_commands win32 i out p ad ps v ! 1) '' ''
     \<noteq> join_string (build_multipass_commands win32 i out p ad ps v ! 0) '' ''"
proof -
  have 1: "build_multipass_commands win32 i out p ad ps v ! 0 =
      (butlast (build_ffmpeg_command i (get_null_device win32) p ad ps v)
         @ [''-pass'', ''1'', ''-f'', ''null'']) @ [get_null_device win32]"
    by (simp add: build_multipass_commands_def push_back_def pop_back_def Let_def)
  have 2: "build_multipass_commands win32 i out p ad ps v ! 1 =
      (build_ffmpeg_command i out p ad ps v @ [''-pass'']) @ [''2'']"
    by (simp add: build_multipass_commands_def push_back_def pop_back_def Let_def)
  have "last (join_string (build_multipass_commands win32 i out p ad ps v ! 0) '' '')
      = last (get_null_device win32)"
    unfolding 1 by (rule last_join_string_snoc) (simp_all add: get_null_device_def)
  moreover have "last (join_string (build_multipass_commands win32 i out p ad ps v ! 1) '' '')
      = CHR ''2''"
    unfolding 2 by (subst last_join_string_snoc) simp_all
  moreover have "last (get_null_device win32) \<noteq> CHR ''2''"
    by (simp add: get_null_device_def)
  ultimately show ?thesis
    by metis
qed

lemma pass_two_is_not_the_probe:
  "join_string (build_multipass_commands win32 i out p ad ps v ! 1) '' ''
     \<noteq> ffprobe_command file"
proof -
  obtain rest where "build_multipass_commands win32 i out p ad ps v ! 1
      = ''ffmpeg'' # ''-analyzeduration'' # rest"
    by (simp add: build_multipass_commands_def push_back_def Let_def
        build_ffmpeg_command_unfold)
  then show ?thesis
    by (simp add: ffprobe_command_def)
qed

lemma process_file_multipass:
  assumes mp: "is_multipass p"
    and rel: "fs_relative os input_file media_dir w = Inr rel_path"
    and run: "process_file os win32 input_file media_dir out_dir p original_format
                output_format force True False repl ad ps verb w = (r, w', t)"
  shows "dispatched t = []
       \<or> (\<exists>w1 t1. execute_branch os win32 input_file
              (output_file_path os input_file out_dir original_format output_format force True
                 repl rel_path) p force False ad ps verb
              (join_string (map render (ffmpeg_cmds win32 input_file
                 (output_file_path os input_file out_dir original_format output_format force
                    True repl rel_path) p ad ps verb)) '' && '') w1 = (r, w', t1)
            \<and> dispatched t = dispatched t1)"
proof -
  define out where "out = output_file_path os input_file out_dir original_format output_format
      force True repl rel_path"
  define str where "str = join_string (map render (ffmpeg_cmds win32 input_file out p ad ps verb))
      '' && ''"
  define sub where "sub = output_subdir_path os out_dir rel_path"
  have pf: "process_file os win32 input_file media_dir out_dir p original_format
                output_format force True False repl ad ps verb w =
     io_bind (ensure_output_subdir os sub False) (\<lambda>subdir_ok.
     if \<not> subdir_ok then io_return 1
     else
     io_bind (check_file_access os out) (\<lambda>access_ok.
     if \<not> access_ok
     then io_bind (cout (''Skipping '' @ input_file @ '' due to output file access issues.''))
            (\<lambda>_. io_return 1)
     else execute_branch os win32 input_file out p force False ad ps verb str)) w"
    unfolding process_file_def
    by (simp add: query_bind_run [of "fs_relative os input_file media_dir" w rel_path, OF rel]
        Let_def out_def str_def sub_def cong: if_cong)
  from run [unfolded pf] have "dispatched t = []
       \<or> (\<exists>w1 t1. execute_branch os win32 input_file out p force False ad ps verb str w1
              = (r, w', t1) \<and> dispatched t = dispatched t1)"
  proof (cases rule: io_bind_cases)
    case (throw e)
    then show ?thesis
      using quietD [OF quiet_ensure_output_subdir] by fastforce
  next
    case (ok subdir_ok w1 t1 t2)
    have q1: "dispatched t1 = []"
      using quietD [OF quiet_ensure_output_subdir ok(1)] .
    show ?thesis
    proof (cases subdir_ok)
      case False
      with ok(2) have "t2 = []"
        by (simp add: io_return_def)
      with q1 ok(3) show ?thesis by simp
    next
      case True
      with ok(2) have "io_bind (check_file_access os out) (\<lambda>access_ok.
         if \<not> access_ok
         then io_bind (cout (''Skipping '' @ input_file @ '' due to output file access issues.''))
            (\<lambda>_. io_return 1)
         else execute_branch os win32 input_file out p force False ad ps verb str) w1
         = (r, w', t2)"
        by simp
      then show ?thesis
      proof (cases rule: io_bind_cases)
        case (throw e)
        then have "dispatched t2 = []"
          using quietD [OF quiet_check_file_access] by fastforce
        with q1 ok(3) show ?thesis by (simp add: dispatched_append)
      next
        case inner: (ok access_ok w2 t3 t4)
        have q3: "dispatched t3 = []"
          using quietD [OF quiet_check_file_access inner(1)] .
        show ?thesis
        proof (cases access_ok)
          case False
          with inner(2) have "dispatched t4 = []"
            by (auto simp: io_bind_def cout_def io_return_def)
          with q1 q3 ok(3) inner(3) show ?thesis by (simp add: dispatched_append)
        next
          case True
          with inner(2) have "execute_branch os win32 input_file out p force False ad ps verb
              str w2 = (r, w', t4)"
            by simp
          moreover have "dispatched t = dispatched t4"
            using q1 q3 ok(3) inner(3) by (simp add: dispatched_append)
          ultimately show ?thesis by blast
        qed
      qed
    qed
  qed
  then show ?thesis
    unfolding out_def str_def .
qed

lemma stub_paths:
  "stub_relative ''in/my_clip.mp4'' ''in'' = ''my_clip.mp4''"
  "stub_parent ''my_clip.mp4'' = []"
  "stub_stem ''in/my_clip.mp4'' = ''my_clip''"
  "stub_parent ''out/my clip.mkv'' = ''out''"
  "stub_parent ''in/my_clip.mp4'' = ''in''"
  by (simp_all add: stub_eval)

lemma stub_output_file:
  "output_file_path (stub_os files dirs perms status) ''in/my_clip.mp4'' ''out'' ''mkv'' ''mkv''
     False True True ''my_clip.mp4'' = ''out/my clip.mkv''"
  by (simp add: output_file_path_def output_subdir_path_def format_filename_def stub_eval)

lemma check_readonly:
  "check_file_access (stub_os [''out/my clip.mkv''] [''out''] 292 0) ''out/my clip.mkv'' ()
     = (Inr True, (), [])"
  by (simp add: check_file_access_def io_eval stub_eval)

lemma should_ignore_run:
  "fs_exists os (path_append os (path_parent os file) flag) w = Inr b \<Longrightarrow>
   io_bind (should_ignore_file os file flag) f w = f b w"
  by (cases "f b w"; cases b)
     (simp_all add: should_ignore_file_def io_bind_def io_query_def io_return_def Let_def)

text \<open>
  C5. In execute mode with effective multipass, for a file that the loop of \<^verbatim>\<open>main\<close>
  hands to \<^verbatim>\<open>process_file\<close>, the commands that reach \<^verbatim>\<open>system()\<close> are, in order,
  one of: none (an earlier step failed); pass 1 with a nonzero status and then only the
  diagnostic probe; pass 1 with status 0, pass 2 with a nonzero status and then the probe;
  pass 1 and pass 2, both with status 0. So pass 2 is dispatched only right after pass 1
  has returned 0 (the pass-2 command differs from the pass-1 command and from the probe),
  and when pass 1 returns nonzero, pass 2 is not run and the loop counts the file as
  failed.
\<close>

theorem pass_two_only_after_pass_one:
  fixes os :: "'w os" and args :: CmdOptions and input_file :: string
  assumes ex: "execute args" and dry: "\<not> dry_run args" and mp: "is_multipass p"
    and eq: "fs_equivalent os input_file (json_file args) w = Inr False"
    and ig: "fs_exists os (path_append os (path_parent os input_file) (ignore_flag args)) w = Inr False"
    and rel: "fs_relative os input_file (input_dir args) w = Inr rel_path"
    and run: "main_loop_body os win32 args p original_format output_format
                analyze_duration probe_size input_file counts w = (r, w', t)"
  shows "let out = output_file_path os input_file (output_dir args) original_format output_format
                     (force_m4v args) (execute args) (\<not> no_underscore_replace args) rel_path;
             cmds = build_multipass_commands win32 input_file out p analyze_duration probe_size
                      (verbose args);
             pass1 = join_string (cmds ! 0) '' '';
             pass2 = join_string (cmds ! 1) '' '';
             probe = ffprobe_command input_file;
             failed = Inr (counts\<lparr>error_count := error_count counts + 1\<rparr>)
         in pass2 \<noteq> pass1 \<and> pass2 \<noteq> probe
            \<and> (dispatched t = []
               \<or> (\<exists>rc rc'. rc \<noteq> 0 \<and> r = failed
                     \<and> dispatched t = [(pass1, rc), (probe, rc')])
               \<or> (\<exists>rc2 rc'. rc2 \<noteq> 0 \<and> r = failed
                     \<and> dispatched t = [(pass1, 0), (pass2, rc2), (probe, rc')])
               \<or> dispatched t = [(pass1, 0), (pass2, 0)])"
proof -
  define out where "out = output_file_path os input_file (output_dir args) original_format
      output_format (force_m4v args) True (\<not> no_underscore_replace args) rel_path"
  define cmds where "cmds = build_multipass_commands win32 input_file out p analyze_duration
      probe_size (verbose args)"
  define pass1 where "pass1 = join_string (cmds ! 0) '' ''"
  define pass2 where "pass2 = join_string (cmds ! 1) '' ''"
  define failed :: "exn + counters"
    where "failed = Inr (counts\<lparr>error_count := error_count counts + 1\<rparr>)"
  define pf where "pf = process_file os win32 input_file (input_dir args) (output_dir args) p
      original_format output_format (force_m4v args) True False
      (\<not> no_underscore_replace args) analyze_duration probe_size (verbose args)"
  have shape: "dispatched t1 = []
      \<or> (\<exists>rc rc'. rc \<noteq> 0 \<and> r1 = Inr 1
            \<and> dispatched t1 = [(pass1, rc), (ffprobe_command input_file, rc')])
      \<or> (\<exists>rc2 rc'. rc2 \<noteq> 0 \<and> r1 = Inr 1
            \<and> dispatched t1 = [(pass1, 0), (pass2, rc2), (ffprobe_command input_file, rc')])
      \<or> dispatched t1 = [(pass1, 0), (pass2, 0)]"
    if "pf w = (r1, w1, t1)" for r1 w1 t1
    using process_file_multipass [OF mp rel that [unfolded pf_def]]
      execute_branch_multipass [OF mp]
    unfolding pass1_def pass2_def cmds_def out_def
    by (metis (no_types, lifting))
  have body: "main_loop_body os win32 args p original_format output_format
      analyze_duration probe_size input_file counts w =
      io_bind pf (\<lambda>result.
        if result = 0 then io_return (counts\<lparr>file_count := file_count counts + 1\<rparr>)
        else io_bind (cout (''Failed to process: '' @ input_file)) (\<lambda>_.
             io_return (counts\<lparr>error_count := error_count counts + 1\<rparr>))) w"
    unfolding main_loop_body_def pf_def
    using ex dry
    by (simp add: query_bind_run [of "fs_equivalent os input_file (json_file args)" w False, OF eq]
        should_ignore_run [OF ig])
  from run [unfolded body]
  have "dispatched t = []
      \<or> (\<exists>rc rc'. rc \<noteq> 0 \<and> r = failed
            \<and> dispatched t = [(pass1, rc), (ffprobe_command input_file, rc')])
      \<or> (\<exists>rc2 rc'. rc2 \<noteq> 0 \<and> r = failed
            \<and> dispatched t = [(pass1, 0), (pass2, rc2), (ffprobe_command input_file, rc')])
      \<or> dispatched t = [(pass1, 0), (pass2, 0)]"
  proof (cases rule: io_bind_cases)
    case (throw e)
    with shape [OF throw(1)] show ?thesis
      by auto
  next
    case (ok result w1 t1 t2)
    have d: "dispatched t = dispatched t1"
      using ok(2,3) by (auto simp: dispatched_append io_eval split: if_splits)
    have "r = failed" if "result = 1"
      using ok(2) that by (auto simp: failed_def io_eval)
    with shape [OF ok(1)] show ?thesis
      unfolding d by auto
  qed
  moreover have "pass2 \<noteq> pass1"
    unfolding pass1_def pass2_def cmds_def by (rule pass_commands_differ)
  moreover have "pass2 \<noteq> ffprobe_command input_file"
    unfolding pass2_def cmds_def by (rule pass_two_is_not_the_probe)
  ultimately show ?thesis
    unfolding Let_def pass1_def pass2_def cmds_def out_def failed_def using ex by simp
qed

lemma two_pass_commands:
  "build_multipass_commands False ''in/my_clip.mp4'' ''out/my clip.mkv'' p_two_pass
     100000000 100000000 True =
   [[''ffmpeg'', ''-analyzeduration'', ''100000000'', ''-probesize'', ''100000000'', ''-i'',
     ''in/my_clip.mp4'', ''-c:v'', ''libx264'', ''-b:v'', ''1500k'', ''-preset'', ''fast'',
     ''-s'', ''1280x720'', ''-c:a'', ''copy'', ''-map'', ''0'',
     ''-pass'', ''1'', ''-f'', ''null'', ''/dev/null''],
    [''ffmpeg'', ''-analyzeduration'', ''100000000'', ''-probesize'', ''100000000'', ''-i'',
     ''in/my_clip.mp4'', ''-c:v'', ''libx264'', ''-b:v'', ''1500k'', ''-preset'', ''fast'',
     ''-s'', ''1280x720'', ''-c:a'', ''copy'', ''-map'', ''0'', ''out/my clip.mkv'',
     ''-pass'', ''2'']]"
  by (simp add: build_multipass_commands_def push_back_def pop_back_def Let_def
      get_null_device_def build_ffmpeg_command_unfold p_two_pass_def split_eval to_string_eval)

lemma pass_one_fails_run:
  "fst (main_loop_body (stub_os [] [''out''] 292 1) False args_execute p_two_pass ''mkv'' ''mkv''
     100000000 100000000 ''in/my_clip.mp4'' counts0 ())
     = Inr \<lparr>file_count = 0, skipped_count = 0, error_count = 1\<rparr>
   \<and> dispatched (snd (snd (main_loop_body (stub_os [] [''out''] 292 1) False args_execute
        p_two_pass ''mkv'' ''mkv'' 100000000 100000000 ''in/my_clip.mp4'' counts0 ())))
     = [(''ffmpeg -analyzeduration 100000000 -probesize 100000000 -i in/my_clip.mp4''
         @ '' -c:v libx264 -b:v 1500k -preset fast -s 1280x720 -c:a copy -map 0''
         @ '' -pass 1 -f null /dev/null'', 1),
        (''ffprobe -hide_banner -v error -show_format -show_streams '' @ [dquote]
         @ ''in/my_clip.mp4'' @ [dquote], 1)]"
  by (simp add: orchestrator_eval io_eval stub_eval args_execute_def counts0_def
      two_pass_commands ffprobe_command_def)
     (simp add: p_two_pass_def)

theorem pass_two_only_after_pass_one_witness:
  "execute args_execute \<and> \<not> dry_run args_execute \<and> is_multipass p_two_pass
   \<and> fst (main_loop_body (stub_os [] [''out''] 292 1) False args_execute p_two_pass
          ''mkv'' ''mkv'' 100000000 100000000 ''in/my_clip.mp4'' counts0 ())
       = Inr \<lparr>file_count = 0, skipped_count = 0, error_count = 1\<rparr>
   \<and> dispatched (snd (snd (main_loop_body (stub_os [] [''out''] 292 1) False args_execute
          p_two_pass ''mkv'' ''mkv'' 100000000 100000000 ''in/my_clip.mp4'' counts0 ())))
       = [(''ffmpeg -analyzeduration 100000000 -probesize 100000000 -i in/my_clip.mp4''
           @ '' -c:v libx264 -b:v 1500k -preset fast -s 1280x720 -c:a copy -map 0''
           @ '' -pass 1 -f null /dev/null'', 1),
          (''ffprobe -hide_banner -v error -show_format -show_streams '' @ [dquote]
           @ ''in/my_clip.mp4'' @ [dquote], 1)]
   \<and> join_string (build_multipass_commands False ''in/my_clip.mp4'' ''out/my clip.mkv''
          p_two_pass 100000000 100000000 True ! 1) '' ''
       \<noteq> join_string (build_multipass_commands False ''in/my_clip.mp4'' ''out/my clip.mkv''
          p_two_pass 100000000 100000000 True ! 0) '' ''"
proof -
  define S where "S = stub_os [] [''out''] 292 1"
  have ex: "execute args_execute" and dry: "\<not> dry_run args_execute"
    by (simp_all add: args_execute_def)
  have mp: "is_multipass p_two_pass"
    by (simp add: is_multipass_def p_two_pass_def find_str_def)
  have eq: "fs_equivalent S ''in/my_clip.mp4'' (json_file args_execute) () = Inr False"
    by (simp add: S_def stub_os_def args_execute_def)
  have ig: "fs_exists S (path_append S (path_parent S ''in/my_clip.mp4'')
      (ignore_flag args_execute)) () = Inr False"
    by (simp add: S_def stub_eval args_execute_def)
  have rel: "fs_relative S ''in/my_clip.mp4'' (input_dir args_execute) () = Inr ''my_clip.mp4''"
    by (simp add: S_def stub_eval args_execute_def)
  have run: "main_loop_body S False args_execute p_two_pass ''mkv'' ''mkv''
      100000000 100000000 ''in/my_clip.mp4'' counts0 ()
    = (fst (main_loop_body S False args_execute p_two_pass ''mkv'' ''mkv''
      100000000 100000000 ''in/my_clip.mp4'' counts0 ()),
       fst (snd (main_loop_body S False args_execute p_two_pass ''mkv'' ''mkv''
      100000000 100000000 ''in/my_clip.mp4'' counts0 ())),
       snd (snd (main_loop_body S False args_execute p_two_pass ''mkv'' ''mkv''
      100000000 100000000 ''in/my_clip.mp4'' counts0 ())))"
    by (simp add: prod_eq_iff)
  have out: "output_file_path S ''in/my_clip.mp4'' (output_dir args_execute) ''mkv'' ''mkv''
     (force_m4v args_execute) (execute args_execute) (\<not> no_underscore_replace args_execute)
     ''my_clip.mp4'' = ''out/my clip.mkv''"
    unfolding S_def using stub_output_file by (simp add: args_execute_def)
  have v: "verbose args_execute"
    by (simp add: args_execute_def)
  note th = pass_two_only_after_pass_one [OF ex dry mp eq ig rel run]
  from th have "join_string (build_multipass_commands False ''in/my_clip.mp4''
          ''out/my clip.mkv'' p_two_pass 100000000 100000000 True ! 1) '' ''
       \<noteq> join_string (build_multipass_commands False ''in/my_clip.mp4'' ''out/my clip.mkv''
          p_two_pass 100000000 100000000 True ! 0) '' ''"
    unfolding Let_def out using v by simp
  then show ?thesis
    using ex dry mp pass_one_fails_run by simp
qed

lemma check_file_access_nonzero_permissions:
  assumes "fs_is_directory os (path_parent os f) w = Inr True"
    and "fs_exists os f w = Inr True"
    and "fs_permissions os f w = Inr perms" and "perms \<noteq> 0"
    and "ofstream_open os (path_append os (path_parent os f) ''.write_test_temp'') w = (True, w1)"
    and "fs_remove os (path_append os (path_parent os f) ''.write_test_temp'') w1 = (Inr b, w2)"
  shows "check_file_access os f w = (Inr True, w2, [])"
  using assms by (simp add: check_file_access_def io_eval Let_def)

lemma check_file_access_no_permissions:
  assumes "fs_is_directory os (path_parent os f) w = Inr True"
    and "fs_exists os f w = Inr True"
    and "fs_permissions os f w = Inr 0"
  shows "fst (check_file_access os f w) = Inr False"
  using assms by (simp add: check_file_access_def io_eval Let_def)

lemma check_file_access_no_directory:
  assumes "fs_is_directory os (path_parent os f) w = Inr False"
  shows "fst (check_file_access os f w) = Inr False"
  using assms by (simp add: check_file_access_def io_eval Let_def)

lemma check_file_access_not_writable:
  assumes "fs_is_directory os (path_parent os f) w = Inr True"
    and "fs_exists os f w = Inr False"
    and "ofstream_open os (path_append os (path_parent os f) ''.write_test_temp'') w = (False, w1)"
  shows "fst (check_file_access os f w) = Inr False"
  using assms by (simp add: check_file_access_def io_eval Let_def)

lemma bind_run:
  "m w = (Inr x, w1, t1) \<Longrightarrow>
   io_bind m f w = (case f x w1 of (r, w2, t2) \<Rightarrow> (r, w2, t1 @ t2))"
  by (simp add: io_bind_def)

lemma access_denied_skips:
  assumes rel: "fs_relative os input_file media_dir w = Inr rel_path"
    and sub: "ensure_output_subdir os (output_subdir_path os out_dir rel_path) False w
              = (Inr True, w1, t1)"
    and chk: "check_file_access os (output_file_path os input_file out_dir original_format
                output_format force True repl rel_path) w1 = (Inr False, w2, t2)"
  shows "fst (process_file os win32 input_file media_dir out_dir p original_format
                output_format force True False repl ad ps verb w) = Inr 1
       \<and> dispatched (snd (snd (process_file os win32 input_file media_dir out_dir p
                original_format output_format force True False repl ad ps verb w))) = []"
proof -
  have d: "dispatched t1 = []" "dispatched t2 = []"
    using quietD [OF quiet_ensure_output_subdir sub] quietD [OF quiet_check_file_access chk]
    by simp_all
  have "process_file os win32 input_file media_dir out_dir p original_format
                output_format force True False repl ad ps verb w
      = (Inr 1, w2, t1 @ t2 @ [Out (''Skipping '' @ input_file
            @ '' due to output file access issues.'')])"
    unfolding process_file_def
    by (simp add: query_bind_run [of "fs_relative os input_file media_dir" w rel_path, OF rel]
          Let_def
          bind_run [of "ensure_output_subdir os (output_subdir_path os out_dir rel_path) False"
            w True w1 t1, OF sub]
          bind_run [of "check_file_access os (output_file_path os input_file out_dir
            original_format output_format force True repl rel_path)" w1 False w2 t2, OF chk]
          cong: if_cong)
       (simp add: io_bind_def cout_def io_return_def)
  then show ?thesis
    using d by (simp add: dispatched_append)
qed

lemma main_loop_body_counts_failure:
  fixes input_file :: string
  assumes "fs_equivalent os input_file (json_file args) w = Inr False"
    and "fs_exists os (path_append os (path_parent os input_file) (ignore_flag args)) w
         = Inr False"
    and "process_file os win32 input_file (input_dir args) (output_dir args) p original_format
           output_format (force_m4v args) (execute args) (dry_run args)
           (\<not> no_underscore_replace args) ad ps (verbose args) w = (Inr rc, w1, t1)"
    and "rc \<noteq> 0"
  shows "fst (main_loop_body os win32 args p original_format output_format ad ps input_file
                counts w) = Inr (counts\<lparr>error_count := error_count counts + 1\<rparr>)"
  unfolding main_loop_body_def
  using assms(4)
  by (simp add: query_bind_run [of "fs_equivalent os input_file (json_file args)" w False,
        OF assms(1)] should_ignore_run [OF assms(2)]
        bind_run [of "process_file os win32 input_file (input_dir args) (output_dir args) p
           original_format output_format (force_m4v args) (execute args) (dry_run args)
           (\<not> no_underscore_replace args) ad ps (verbose args)" w rc w1 t1, OF assms(3)])
     (simp add: io_bind_def cout_def io_return_def)

text \<open>
  C7 fails on the code at a read-only output file. \<^verbatim>\<open>check_file_access\<close> rejects an
  existing output file only when its permissions are \<^verbatim>\<open>fs::perms::none\<close>; a file
  that exists with permissions 444 (read-only) passes the check, and the transcode is
  dispatched for it. The directory checks, and the skipping of a file whose check fails,
  are as claimed (lemmas \<open>check_file_access_no_directory\<close>,
  \<open>check_file_access_not_writable\<close>, \<open>access_denied_skips\<close>,
  \<open>main_loop_body_counts_failure\<close>).
\<close>

theorem readonly_output_is_transcoded:
  "check_file_access (stub_os [''out/my clip.mkv''] [''out''] 292 0) ''out/my clip.mkv'' ()
     = (Inr True, (), [])
   \<and> fst (process_file (stub_os [''out/my clip.mkv''] [''out''] 292 0) False
        ''in/my_clip.mp4'' ''in'' ''out'' p_crf ''mkv'' ''mkv'' False True False True
        100000000 100000000 False ()) = Inr 0
   \<and> dispatched (snd (snd (process_file (stub_os [''out/my clip.mkv''] [''out''] 292 0) False
        ''in/my_clip.mp4'' ''in'' ''out'' p_crf ''mkv'' ''mkv'' False True False True
        100000000 100000000 False ())))
     = [(join_string (build_ffmpeg_command ''in/my_clip.mp4'' ''out/my clip.mkv'' p_crf
           100000000 100000000 False) '' '', 0)]"
proof -
  have c: "check_file_access (stub_os [''out/my clip.mkv''] [''out''] 292 0)
      ''out/my clip.mkv'' () = (Inr True, (), [])"
    by (simp add: check_file_access_def io_eval stub_eval)
  have m: "\<not> is_multipass p_crf"
    by (simp add: is_multipass_def p_crf_def find_str_def)
  have o: "output_file_path (stub_os [''out/my clip.mkv''] [''out''] 292 0) ''in/my_clip.mp4''
       ''out'' ''mkv'' ''mkv'' False True True ''my_clip.mp4'' = ''out/my clip.mkv''"
    by (rule stub_output_file)
  have p: "fst (process_file (stub_os [''out/my clip.mkv''] [''out''] 292 0) False
        ''in/my_clip.mp4'' ''in'' ''out'' p_crf ''mkv'' ''mkv'' False True False True
        100000000 100000000 False ()) = Inr 0
   \<and> dispatched (snd (snd (process_file (stub_os [''out/my clip.mkv''] [''out''] 292 0) False
        ''in/my_clip.mp4'' ''in'' ''out'' p_crf ''mkv'' ''mkv'' False True False True
        100000000 100000000 False ())))
     = [(join_string (build_ffmpeg_command ''in/my_clip.mp4'' ''out/my clip.mkv'' p_crf
           100000000 100000000 False) '' '', 0)]"
    by (simp add: orchestrator_eval io_eval stub_eval m [unfolded is_multipass_def find_str_def])
  show ?thesis
    using c p by simp
qed

end
